theory Spec2Isabelle
  imports Complex_Main "HOL-Library.Multiset"
begin

section \<open>Data model\<close>

text \<open>
  The application is a browser client over a hosted PostgreSQL database. The tables are
  declared in the SQL migrations, the rows are read and written by the React components.
  A UUID is a string; a timestamp is the number of milliseconds since the epoch, which is
  what \<^verbatim>\<open>Date.getTime()\<close> computes with and what the ISO strings exchanged with
  the database denote.
\<close>

type_synonym uuid = string
type_synonym timestamp = int

text \<open>\<^verbatim>\<open>CREATE TYPE request_status AS ENUM ('pending', 'approved', 'denied')\<close>\<close>

datatype request_status = Pending | Approved | Denied

text \<open>
  A row of \<^verbatim>\<open>public.rides\<close>. \<open>driver_id\<close> is nullable since the guest-mode
  migration. \<open>cost_per_person\<close> is nullable since the same migration; the client sends
  \<^verbatim>\<open>null\<close> for it exactly when its JavaScript number is not finite. The columns
  \<^verbatim>\<open>id\<close>, \<^verbatim>\<open>contact_email\<close> and \<^verbatim>\<open>contact_name\<close> carry the
  suffix \<open>_ride\<close> here.
\<close>

record ride =
  id_ride :: uuid
  driver_id :: "uuid option"
  origin :: string
  destination :: string
  departure_time :: timestamp
  arrival_time :: timestamp
  total_seats :: int
  available_seats :: int
  cost_per_person :: "rat option"
  contact_email_ride :: "string option"
  contact_name_ride :: "string option"

text \<open>A row of \<^verbatim>\<open>public.requests\<close>; the column \<^verbatim>\<open>id\<close> is \<open>id_req\<close>.\<close>

record request =
  id_req :: uuid
  ride_id :: uuid
  passenger_id :: "uuid option"
  seats_requested :: int
  status :: request_status
  contact_email :: "string option"
  contact_name :: "string option"

text \<open>
  The driver dashboard selects requests together with the joined profile
  (\<^verbatim>\<open>profiles:passenger_id (full_name)\<close>). The embedded object is \<^verbatim>\<open>null\<close>
  for a guest request, whose \<open>passenger_id\<close> is null; \<open>profiles\<close> holds the
  \<^verbatim>\<open>full_name\<close> otherwise.
\<close>

record request_joined = request +
  profiles :: "string option"

text \<open>The database: the profiles as (id, full_name), the rides and the requests.\<close>

record database =
  profiles_tbl :: "(uuid \<times> string) list"
  rides_tbl :: "ride list"
  requests_tbl :: "request list"

text \<open>
  What a call can fail with: an error reported by the backend without the statement taking
  effect (transport, service), a constraint of the schema, or an exception of the
  JavaScript runtime.
\<close>

datatype error =
    BackendError string
  | CheckViolation string
  | NotNullViolation string
  | UniqueViolation string
  | ForeignKeyViolation string
  | NumericOutOfRange string
  | InvalidTimestamp
  | RangeError
  | TypeError

text \<open>The notifications shown to the user; the outcome of a handler is its toast.\<close>

datatype toast =
    RequestApproved string
  | NotEnoughSeats
  | RequestDenied string
  | ErrorToast error
  | EmailRequired
  | TripPosted
  | RequestSent

section \<open>The statements sent to the database\<close>

text \<open>
  Every awaited call returns \<^verbatim>\<open>{ data, error }\<close>. The parameter \<open>reply\<close> of a
  call is \<open>Some msg\<close> when the backend reports the error \<open>msg\<close> and the statement
  has no effect, and \<open>None\<close> when the statement is executed against the tables.
  Row-level security is not a parameter: the dashboard loads only the rides whose
  \<open>driver_id\<close> is the signed-in user, for which the update policies hold.
\<close>

definition set_status :: "uuid \<Rightarrow> request_status \<Rightarrow> request \<Rightarrow> request" where
  "set_status requestId st q = (if id_req q = requestId then q\<lparr>status := st\<rparr> else q)"

text \<open>\<^verbatim>\<open>supabase.from("requests").update({ status }).eq("id", requestId)\<close>\<close>

definition update_request_status ::
  "string option \<Rightarrow> uuid \<Rightarrow> request_status \<Rightarrow> database \<Rightarrow> error + database" where
  "update_request_status reply requestId st db =
     (case reply of
        Some msg \<Rightarrow> Inl (BackendError msg)
      | None \<Rightarrow> Inr (db\<lparr>requests_tbl := map (set_status requestId st) (requests_tbl db)\<rparr>))"

text \<open>
  The CHECK constraints of \<^verbatim>\<open>public.rides\<close>, in the order PostgreSQL evaluates
  them (by constraint name). A null \<open>cost_per_person\<close> passes its check.
\<close>

definition ride_checks :: "ride \<Rightarrow> error option" where
  "ride_checks r =
     (if total_seats r < available_seats r then Some (CheckViolation ''available_seats_check'')
      else if available_seats r < 0 then Some (CheckViolation ''rides_available_seats_check'')
      else if (case cost_per_person r of Some c \<Rightarrow> c < 0 | None \<Rightarrow> False)
        then Some (CheckViolation ''rides_cost_per_person_check'')
      else if total_seats r \<le> 0 then Some (CheckViolation ''rides_total_seats_check'')
      else None)"

fun first_violation :: "ride list \<Rightarrow> error option" where
  "first_violation [] = None"
| "first_violation (r # rs) =
     (case ride_checks r of Some e \<Rightarrow> Some e | None \<Rightarrow> first_violation rs)"

definition set_available :: "uuid \<Rightarrow> int \<Rightarrow> ride \<Rightarrow> ride" where
  "set_available rideId n r = (if id_ride r = rideId then r\<lparr>available_seats := n\<rparr> else r)"

text \<open>
  \<^verbatim>\<open>supabase.from("rides").update({ available_seats: n }).eq("id", rideId)\<close>: the
  statement is rejected as a whole when an updated row violates a CHECK constraint.
\<close>

definition update_ride_available ::
  "string option \<Rightarrow> uuid \<Rightarrow> int \<Rightarrow> database \<Rightarrow> error + database" where
  "update_ride_available reply rideId n db =
     (case reply of
        Some msg \<Rightarrow> Inl (BackendError msg)
      | None \<Rightarrow>
          (case first_violation
                  (map (set_available rideId n) (filter (\<lambda>r. id_ride r = rideId) (rides_tbl db))) of
             Some e \<Rightarrow> Inl e
           | None \<Rightarrow> Inr (db\<lparr>rides_tbl := map (set_available rideId n) (rides_tbl db)\<rparr>)))"

section \<open>The driver dashboard\<close>

text \<open>
  The React state of \<^verbatim>\<open>DriverDashboard\<close>: the rides and the requests grouped by
  ride, as the last completed \<^verbatim>\<open>fetchData\<close> stored them. \<open>requestsByRide\<close> is
  the object \<^verbatim>\<open>Record<string, Request[]>\<close> with its keys in insertion order.
\<close>

record dashboard =
  rides :: "ride list"
  requestsByRide :: "(uuid \<times> request_joined list) list"

datatype decision = Approve | Deny

text \<open>
  \<^verbatim>\<open>handleRequestDecision(requestId, rideId, decision)\<close>. The request and the ride
  are looked up in the React state, not in the database. The result is the database after
  the call, the toast shown (\<open>None\<close> for the silent return) and whether the trailing
  \<^verbatim>\<open>fetchData()\<close> was started; that call is not awaited, so the state \<open>d\<close> is
  replaced only when a later \<open>fetchData\<close> completes. \<open>reply1\<close> and \<open>reply2\<close> are
  the backend's replies to the first and the second statement. The success toasts read
  \<^verbatim>\<open>request.profiles.full_name\<close>, which throws a TypeError for a guest request
  after the statements have been executed.
\<close>

definition handleRequestDecision ::
  "dashboard \<Rightarrow> string option \<Rightarrow> string option \<Rightarrow> uuid \<Rightarrow> uuid \<Rightarrow> decision \<Rightarrow> database
     \<Rightarrow> database \<times> toast option \<times> bool" where
  "handleRequestDecision d reply1 reply2 requestId rideId decision db =
     (case find (\<lambda>r. id_req r = requestId) (concat (map snd (requestsByRide d))) of
        None \<Rightarrow> (db, None, False)
      | Some request \<Rightarrow>
     (case find (\<lambda>r. id_ride r = rideId) (rides d) of
        None \<Rightarrow> (db, None, False)
      | Some ride \<Rightarrow>
         (case decision of
            Approve \<Rightarrow>
              if seats_requested request \<le> available_seats ride then
                (case update_request_status reply1 requestId Approved db of
                   Inl requestError \<Rightarrow> (db, Some (ErrorToast requestError), False)
                 | Inr db1 \<Rightarrow>
                    (case update_ride_available reply2 rideId
                            (available_seats ride - seats_requested request) db1 of
                       Inl rideError \<Rightarrow> (db1, Some (ErrorToast rideError), False)
                     | Inr db2 \<Rightarrow>
                        (case profiles request of
                           None \<Rightarrow> (db2, Some (ErrorToast TypeError), False)
                         | Some full_name \<Rightarrow> (db2, Some (RequestApproved full_name), True))))
              else
                (case update_request_status reply1 requestId Denied db of
                   Inl _ \<Rightarrow> (db, Some NotEnoughSeats, True)
                 | Inr db1 \<Rightarrow> (db1, Some NotEnoughSeats, True))
          | Deny \<Rightarrow>
              (case update_request_status reply1 requestId Denied db of
                 Inl err \<Rightarrow> (db, Some (ErrorToast err), False)
               | Inr db1 \<Rightarrow>
                  (case profiles request of
                     None \<Rightarrow> (db1, Some (ErrorToast TypeError), False)
                   | Some full_name \<Rightarrow> (db1, Some (RequestDenied full_name), True))))))"

text \<open>
  The rendered list. Without a signed-in user or without loaded rides a message is
  rendered and no button. Otherwise the render takes, for each loaded ride, the requests
  \<^verbatim>\<open>requestsByRide[ride.id] || []\<close>, those whose loaded status is
  \<^verbatim>\<open>"pending"\<close> and the names \<^verbatim>\<open>r.profiles.full_name\<close> of those whose loaded
  status is \<^verbatim>\<open>"approved"\<close>; the name of an approved guest request throws a TypeError,
  as does \<^verbatim>\<open>ride.cost_per_person.toFixed(2)\<close> for a ride whose cost is null: the
  render fails and no button exists. Only the pending requests get the Approve and Deny
  buttons, which call \<open>handleRequestDecision\<close> with the request's and the ride's id.
\<close>

definition requests_of :: "dashboard \<Rightarrow> uuid \<Rightarrow> request_joined list" where
  "requests_of d rideId = (case map_of (requestsByRide d) rideId of None \<Rightarrow> [] | Some qs \<Rightarrow> qs)"

definition pendingRequests :: "dashboard \<Rightarrow> uuid \<Rightarrow> request_joined list" where
  "pendingRequests d rideId = filter (\<lambda>r. status r = Pending) (requests_of d rideId)"

definition approvedPassengers :: "dashboard \<Rightarrow> uuid \<Rightarrow> error + string list" where
  "approvedPassengers d rideId =
     (let approved = filter (\<lambda>r. status r = Approved) (requests_of d rideId)
      in if list_ex (\<lambda>r. profiles r = None) approved then Inl TypeError
         else Inr (concat (map (\<lambda>r. case profiles r of None \<Rightarrow> [] | Some full_name \<Rightarrow> [full_name])
                               approved)))"

definition offered_decisions :: "uuid option \<Rightarrow> dashboard \<Rightarrow> error + (uuid \<times> uuid) list" where
  "offered_decisions user d =
     (if user = None \<or> rides d = [] then Inr []
      else if list_ex (\<lambda>ride. (case approvedPassengers d (id_ride ride) of
                                 Inl e \<Rightarrow> True
                               | Inr names \<Rightarrow> cost_per_person ride = None))
                (rides d)
        then Inl TypeError
      else Inr (concat (map (\<lambda>ride. map (\<lambda>req. (id_req req, id_ride ride))
                                        (pendingRequests d (id_ride ride)))
                            (rides d))))"

text \<open>
  \<^verbatim>\<open>fetchData\<close>: the signed-in user's future rides in order of departure, then the
  requests of these rides with the joined profile, grouped by ride. The first query's
  error leaves the state as it was; with no ride the second query is skipped and the old
  \<open>requestsByRide\<close> stays. The \<^verbatim>\<open>loading\<close> flag is not part of the model.
\<close>

definition join_profile :: "(uuid \<times> string) list \<Rightarrow> request \<Rightarrow> request_joined" where
  "join_profile ps q =
     request.extend q
       (request_joined.fields (case passenger_id q of None \<Rightarrow> None | Some p \<Rightarrow> map_of ps p))"

fun push_grouped ::
  "(uuid \<times> request_joined list) list \<Rightarrow> request_joined \<Rightarrow> (uuid \<times> request_joined list) list" where
  "push_grouped [] req = [(ride_id req, [req])]"
| "push_grouped ((k, qs) # grouped) req =
     (if k = ride_id req then (k, qs @ [req]) # grouped else (k, qs) # push_grouped grouped req)"

definition fetchData ::
  "uuid option \<Rightarrow> timestamp \<Rightarrow> string option \<Rightarrow> string option \<Rightarrow> database \<Rightarrow> dashboard
     \<Rightarrow> dashboard \<times> toast option" where
  "fetchData user now reply1 reply2 db d =
     (case user of
        None \<Rightarrow> (d, None)
      | Some uid \<Rightarrow>
         (case reply1 of
            Some msg \<Rightarrow> (d, Some (ErrorToast (BackendError msg)))
          | None \<Rightarrow>
             (let ridesData = sort_key departure_time
                    (filter (\<lambda>r. driver_id r = Some uid \<and> now < departure_time r) (rides_tbl db));
                  d1 = d\<lparr>rides := ridesData\<rparr>
              in if ridesData \<noteq> [] then
                   (case reply2 of
                      Some msg \<Rightarrow> (d1, Some (ErrorToast (BackendError msg)))
                    | None \<Rightarrow>
                       (let rideIds = map id_ride ridesData;
                            requestsData = map (join_profile (profiles_tbl db))
                              (filter (\<lambda>q. ride_id q \<in> set rideIds) (requests_tbl db))
                        in (d1\<lparr>requestsByRide := foldl push_grouped [] requestsData\<rparr>, None)))
                 else (d1, None))))"

section \<open>Offering a trip\<close>

subsection \<open>JavaScript numbers\<close>

text \<open>
  A JavaScript number is an IEEE 754 binary64 value. A finite number is modelled by the
  rational it denotes; the sign of a zero plays no part below, both zeros being written
  as \<^verbatim>\<open>0\<close>. \<open>None\<close> stands for a number that is not finite, which
  \<^verbatim>\<open>JSON.stringify\<close> writes as \<^verbatim>\<open>null\<close>. Every arithmetic operation returns the
  number nearest to the exact result, \<open>binary64\<close> of it: 53 bits of precision, a tie
  going to the even significand, subnormal numbers below \<open>2 powi - 1022\<close>, and no finite
  number from \<open>2 powi 1024\<close> on.
\<close>

function digits :: "int \<Rightarrow> int \<Rightarrow> nat" where
  "digits b n = (if n \<le> 0 \<or> b \<le> 1 then 0 else Suc (digits b (n div b)))"
  by pat_completeness auto
termination
  by (relation "measure (\<lambda>(b, n). nat n)") (auto intro!: int_div_less_self)

declare digits.simps [simp del]

text \<open>The exponent \<open>e\<close> of a positive rational in base \<open>b\<close>: \<open>b powi e \<le> x < b powi (e + 1)\<close>.\<close>

definition ilog :: "int \<Rightarrow> rat \<Rightarrow> int" where
  "ilog b x =
     (let (p, q) = quotient_of x;
          e = int (digits b p) - int (digits b q)
      in if rat_of_int b powi e \<le> x then e else e - 1)"

definition round_half_even :: "rat \<Rightarrow> int" where
  "round_half_even r =
     (let f = \<lfloor>r\<rfloor>; d = r - rat_of_int f
      in if d < 1 / 2 then f else if 1 / 2 < d then f + 1 else if even f then f else f + 1)"

definition binary64 :: "rat \<Rightarrow> rat option" where
  "binary64 x =
     (if x = 0 then Some 0
      else
        (let ulp = 2 powi (max (ilog 2 \<bar>x\<bar>) (- 1022) - 52);
             y = rat_of_int (round_half_even (\<bar>x\<bar> / ulp)) * ulp
         in if 2 powi 1024 \<le> y then None else Some (sgn x * y)))"

text \<open>
  \<^verbatim>\<open>JSON.stringify\<close> writes a finite number as \<^verbatim>\<open>Number::toString\<close> does: with the
  fewest significant digits that read back as the same number and, where several such
  decimals exist, the one nearest to the number. \<open>shortest_digits\<close> tries one to
  seventeen digits, which always suffice; \<open>Number_toString\<close> is the rational the
  written decimal denotes, which is what the database reads.
\<close>

fun shortest_digits :: "nat \<Rightarrow> rat \<Rightarrow> rat" where
  "shortest_digits 0 x = x"
| "shortest_digits (Suc j) x =
     (let k = 17 - int j;
          unit = 10 powi (ilog 10 x + 1 - k);
          s = \<lfloor>x / unit\<rfloor>;
          lo = rat_of_int s * unit;
          hi = rat_of_int (s + 1) * unit
      in if binary64 lo = Some x \<and> binary64 hi = Some x
         then (if x - lo < hi - x then lo else if hi - x < x - lo then hi
               else if even s then lo else hi)
         else if binary64 lo = Some x then lo
         else if binary64 hi = Some x then hi
         else shortest_digits j x)"

definition Number_toString :: "rat \<Rightarrow> rat" where
  "Number_toString x =
     (if x = 0 then 0 else if x < 0 then - shortest_digits 17 (- x) else shortest_digits 17 x)"

subsection \<open>The estimate and the row\<close>

text \<open>
  The estimate of \<^verbatim>\<open>OfferRide.handleSubmit\<close>. A string's \<^verbatim>\<open>length\<close> is its
  number of code units, the list's length here. The distance is an integer far below
  \<open>2 ^ 53\<close> for every string an engine holds, so the number is that integer; the
  quotients and the product are rounded as the operations do. \<^verbatim>\<open>Math.round\<close> rounds a
  half upwards, as \<^const>\<open>round\<close> does. \<open>PRICE_PER_GALLON\<close> is the number the literal
  \<^verbatim>\<open>3.85\<close> denotes. \<^verbatim>\<open>seatsNum + 1\<close> is exact for every seat count that the
  \<^verbatim>\<open>INTEGER\<close> columns accept, and for any other the row is refused before the cost
  is read; a division by \<^verbatim>\<open>seatsNum + 1 = 0\<close> yields a number that is not finite.
\<close>

definition mockDistance :: "string \<Rightarrow> string \<Rightarrow> int" where
  "mockDistance orig dest = (int (length orig) + int (length dest)) * 12"

definition mockDurationMinutes :: "int \<Rightarrow> int option" where
  "mockDurationMinutes miles =
     (case binary64 (rat_of_int miles / 55) of
        None \<Rightarrow> None
      | Some hours \<Rightarrow>
         (case binary64 (hours * 60) of
            None \<Rightarrow> None
          | Some minutes \<Rightarrow> Some (round minutes)))"

definition AVG_MPG :: rat where
  "AVG_MPG = 25"

definition PRICE_PER_GALLON :: rat where
  "PRICE_PER_GALLON = 8669429282688205 / 2251799813685248"

definition totalFuelCost :: "int \<Rightarrow> rat option" where
  "totalFuelCost miles =
     (case binary64 (rat_of_int miles / AVG_MPG) of
        None \<Rightarrow> None
      | Some gallons \<Rightarrow> binary64 (gallons * PRICE_PER_GALLON))"

definition costPerPerson :: "int \<Rightarrow> int \<Rightarrow> rat option" where
  "costPerPerson miles seatsNum =
     (case totalFuelCost miles of
        None \<Rightarrow> None
      | Some fuel \<Rightarrow>
         if seatsNum + 1 = 0 then None else binary64 (fuel / rat_of_int (seatsNum + 1)))"

text \<open>
  \<^verbatim>\<open>new Date(v)\<close> is invalid when \<open>v\<close> is NaN (\<open>None\<close>) or beyond the range of
  time values; \<^verbatim>\<open>toISOString\<close> of an invalid date throws a RangeError. The sum of
  the departure and the milliseconds of the trip is exact whenever it is within that
  range, and beyond it otherwise, so that it is computed in the integers.
\<close>

definition new_Date :: "int option \<Rightarrow> timestamp option" where
  "new_Date v =
     (case v of
        None \<Rightarrow> None
      | Some t \<Rightarrow> if \<bar>t\<bar> \<le> 8640000000000000 then Some t else None)"

definition toISOString :: "timestamp option \<Rightarrow> error + timestamp" where
  "toISOString t = (case t of None \<Rightarrow> Inl RangeError | Some ms \<Rightarrow> Inr ms)"

text \<open>
  The object passed to \<^verbatim>\<open>insert\<close>, the same in the guest and the signed-in branch
  but for the driver and the contact fields. The id is the one the database generates.
  \<open>datetime\<close> is the time the form's string denotes, \<open>None\<close> when it denotes none,
  and \<open>seatsNum\<close> the integer \<^verbatim>\<open>parseInt(seats)\<close> of the form's required number
  field. The cost of the row is still the JavaScript number.
\<close>

definition ride_values ::
  "uuid \<Rightarrow> uuid option \<Rightarrow> string \<Rightarrow> string \<Rightarrow> int option \<Rightarrow> int \<Rightarrow> string option \<Rightarrow> string option
     \<Rightarrow> error + ride" where
  "ride_values new_id driver orig dest datetime seatsNum email name =
     (let departureDate = new_Date datetime;
          arrivalDate = new_Date
            (case departureDate of
               None \<Rightarrow> None
             | Some t \<Rightarrow>
                (case mockDurationMinutes (mockDistance orig dest) of
                   None \<Rightarrow> None
                 | Some minutes \<Rightarrow> Some (t + minutes * 60000)))
      in case toISOString departureDate of
           Inl e \<Rightarrow> Inl e
         | Inr dep \<Rightarrow>
            (case toISOString arrivalDate of
               Inl e \<Rightarrow> Inl e
             | Inr arr \<Rightarrow>
                 Inr \<lparr>id_ride = new_id, driver_id = driver, origin = orig, destination = dest,
                      departure_time = dep, arrival_time = arr,
                      total_seats = seatsNum, available_seats = seatsNum,
                      cost_per_person = costPerPerson (mockDistance orig dest) seatsNum,
                      contact_email_ride = email, contact_name_ride = name\<rparr>))"

text \<open>
  The columns' types. \<^verbatim>\<open>TIMESTAMP WITH TIME ZONE\<close> reads the text of
  \<^verbatim>\<open>toISOString\<close> for the years 0001 to 9999 and refuses the year 0000 and the
  signed six-digit years written outside that range. \<^verbatim>\<open>INTEGER\<close> holds 32 bits.
  \<^verbatim>\<open>DECIMAL(10,2)\<close> rounds the decimal it reads to two decimals, a half away from
  zero, and holds fewer than ten digits.
\<close>

definition timestamptz :: "timestamp \<Rightarrow> bool" where
  "timestamptz t \<longleftrightarrow> - 62135596800000 \<le> t \<and> t \<le> 253402300799999"

definition int4 :: "int \<Rightarrow> bool" where
  "int4 n \<longleftrightarrow> - 2147483648 \<le> n \<and> n \<le> 2147483647"

definition decimal_10_2 :: "rat \<Rightarrow> error + rat" where
  "decimal_10_2 c =
     (let cents = (if 0 \<le> c then round (c * 100) else - round (- c * 100))
      in if 10000000000 \<le> \<bar>cents\<bar> then Inl (NumericOutOfRange ''numeric'')
         else Inr (rat_of_int cents / 100))"

text \<open>
  \<^verbatim>\<open>supabase.from("rides").insert(row)\<close>: the values are converted to the columns'
  types in the order of the columns, the cost from the decimal that
  \<^verbatim>\<open>JSON.stringify\<close> writes for the number; then the CHECK constraints are
  evaluated, then the primary key and the foreign key to the profiles. The insert
  policies hold for the rows the client builds: the \<open>driver_id\<close> is the signed-in user,
  or null for a guest. The alias columns of the guest-mode migration only copy the values
  given and are left out.
\<close>

definition insert_ride :: "string option \<Rightarrow> ride \<Rightarrow> database \<Rightarrow> error + database" where
  "insert_ride reply row db =
     (case reply of
        Some msg \<Rightarrow> Inl (BackendError msg)
      | None \<Rightarrow>
         if \<not> timestamptz (departure_time row) \<or> \<not> timestamptz (arrival_time row)
         then Inl InvalidTimestamp
         else if \<not> int4 (total_seats row) \<or> \<not> int4 (available_seats row)
         then Inl (NumericOutOfRange ''integer'')
         else
          (case (case cost_per_person row of
                   None \<Rightarrow> Inr None
                 | Some c \<Rightarrow>
                    (case decimal_10_2 (Number_toString c) of
                       Inl e \<Rightarrow> Inl e
                     | Inr c' \<Rightarrow> Inr (Some c'))) of
             Inl e \<Rightarrow> Inl e
           | Inr cost \<Rightarrow>
              (let row' = row\<lparr>cost_per_person := cost\<rparr>
               in case ride_checks row' of
                    Some e \<Rightarrow> Inl e
                  | None \<Rightarrow>
                     if id_ride row' \<in> set (map id_ride (rides_tbl db))
                     then Inl (UniqueViolation ''rides_pkey'')
                     else if (case driver_id row' of
                                None \<Rightarrow> False
                              | Some u \<Rightarrow> u \<notin> set (map fst (profiles_tbl db)))
                     then Inl (ForeignKeyViolation ''rides_driver_id_fkey'')
                     else Inr (db\<lparr>rides_tbl := rides_tbl db @ [row']\<rparr>))))"

text \<open>\<^verbatim>\<open>OfferRide.handleSubmit\<close>: the guest branch first, then the signed-in one.\<close>

definition handleSubmit ::
  "uuid option \<Rightarrow> string \<Rightarrow> string \<Rightarrow> int option \<Rightarrow> int \<Rightarrow> string \<Rightarrow> string \<Rightarrow> string option \<Rightarrow> uuid
     \<Rightarrow> database \<Rightarrow> database \<times> toast option" where
  "handleSubmit user orig dest datetime seatsNum guestEmail guestName reply new_id db =
     (case user of
        None \<Rightarrow>
          if guestEmail = [] then (db, Some EmailRequired)
          else
           (case ride_values new_id None orig dest datetime seatsNum (Some guestEmail)
                   (if guestName = [] then None else Some guestName) of
              Inl err \<Rightarrow> (db, Some (ErrorToast err))
            | Inr row \<Rightarrow>
               (case insert_ride reply row db of
                  Inl err \<Rightarrow> (db, Some (ErrorToast err))
                | Inr db' \<Rightarrow> (db', Some TripPosted)))
      | Some uid \<Rightarrow>
          (case ride_values new_id (Some uid) orig dest datetime seatsNum None None of
             Inl err \<Rightarrow> (db, Some (ErrorToast err))
           | Inr row \<Rightarrow>
              (case insert_ride reply row db of
                 Inl err \<Rightarrow> (db, Some (ErrorToast err))
               | Inr db' \<Rightarrow> (db', Some TripPosted))))"

text \<open>
  What is said below of a row posted from the form: the estimated minutes are a finite
  number, not negative, and the arrival is the departure plus these minutes; all seats
  are available; the fuel cost is a finite number, not negative, and the number of people
  is positive; the cost per person is a finite number, not negative, and the stored cost
  is that number as the database reads and rounds it, not negative either.
\<close>

definition posted_row_ok :: "string \<Rightarrow> string \<Rightarrow> int \<Rightarrow> ride \<Rightarrow> bool" where
  "posted_row_ok orig dest seatsNum row \<longleftrightarrow>
     (case mockDurationMinutes (mockDistance orig dest) of
        None \<Rightarrow> False
      | Some minutes \<Rightarrow>
          0 \<le> minutes \<and> arrival_time row = departure_time row + minutes * 60000) \<and>
     departure_time row \<le> arrival_time row \<and>
     total_seats row = seatsNum \<and> available_seats row = seatsNum \<and>
     (case totalFuelCost (mockDistance orig dest) of None \<Rightarrow> False | Some fuel \<Rightarrow> 0 \<le> fuel) \<and>
     0 < seatsNum + 1 \<and>
     (case costPerPerson (mockDistance orig dest) seatsNum of
        None \<Rightarrow> False
      | Some c \<Rightarrow>
          0 \<le> c \<and>
          (case decimal_10_2 (Number_toString c) of
             Inl e \<Rightarrow> False
           | Inr stored \<Rightarrow> cost_per_person row = Some stored \<and> 0 \<le> stored))"

section \<open>Finding a ride and requesting seats\<close>

text \<open>
  The query of \<^verbatim>\<open>FindRide.fetchRides\<close>:
  \<^verbatim>\<open>.gt("departure_time", now).gt("available_seats", 0).order("departure_time")\<close>.
  The joined driver profile is only displayed and is left out.
\<close>

definition open_rides :: "timestamp \<Rightarrow> database \<Rightarrow> ride list" where
  "open_rides now db =
     sort_key departure_time
       (filter (\<lambda>r. now < departure_time r \<and> 0 < available_seats r) (rides_tbl db))"

text \<open>\<^verbatim>\<open>Array.from(new Set(xs))\<close>: the distinct elements in order of first occurrence.\<close>

definition from_Set :: "string list \<Rightarrow> string list" where
  "from_Set xs = rev (remdups (rev xs))"

record find_ride =
  rides_found :: "ride list"
  origins :: "string list"
  destinations :: "string list"

definition fetchRides ::
  "string option \<Rightarrow> timestamp \<Rightarrow> database \<Rightarrow> find_ride \<Rightarrow> find_ride \<times> toast option" where
  "fetchRides reply now db s =
     (case reply of
        Some msg \<Rightarrow> (s, Some (ErrorToast (BackendError msg)))
      | None \<Rightarrow>
         (let list = open_rides now db
          in (\<lparr>rides_found = list,
               origins = ''All Locations'' # from_Set (filter (\<lambda>s. s \<noteq> []) (map origin list)),
               destinations =
                 ''All Locations'' # from_Set (filter (\<lambda>s. s \<noteq> []) (map destination list))\<rparr>,
              None)))"

text \<open>The rides rendered under the two filters of the page.\<close>

definition filteredRides :: "string \<Rightarrow> string \<Rightarrow> ride list \<Rightarrow> ride list" where
  "filteredRides originFilter destinationFilter rs =
     filter (\<lambda>ride. (originFilter = ''All Locations'' \<or> origin ride = originFilter) \<and>
                    (destinationFilter = ''All Locations'' \<or> destination ride = destinationFilter))
            rs"

text \<open>
  \<^verbatim>\<open>supabase.from("requests").insert(row)\<close>. \<open>seats\<close> is \<open>None\<close> for NaN, which is
  sent as \<^verbatim>\<open>null\<close>. \<^verbatim>\<open>UNIQUE(ride_id, passenger_id)\<close> compares non-null values
  only: two rows whose \<open>passenger_id\<close> is null never conflict. The status is the
  column's default. The insert policies hold for the rows the client builds: the
  \<open>passenger_id\<close> is the signed-in user, or null for a guest.
\<close>

definition insert_request ::
  "string option \<Rightarrow> uuid \<Rightarrow> uuid \<Rightarrow> uuid option \<Rightarrow> int option \<Rightarrow> string option \<Rightarrow> string option
     \<Rightarrow> database \<Rightarrow> error + database" where
  "insert_request reply new_id rideId passengerId seats email name db =
     (case reply of
        Some msg \<Rightarrow> Inl (BackendError msg)
      | None \<Rightarrow>
         (case seats of
            None \<Rightarrow> Inl (NotNullViolation ''seats_requested'')
          | Some n \<Rightarrow>
             if \<not> int4 n then Inl (NumericOutOfRange ''integer'')
             else if n \<le> 0 then Inl (CheckViolation ''requests_seats_requested_check'')
             else if new_id \<in> set (map id_req (requests_tbl db))
               then Inl (UniqueViolation ''requests_pkey'')
             else if list_ex (\<lambda>q. ride_id q = rideId \<and> passenger_id q \<noteq> None \<and>
                                   passenger_id q = passengerId) (requests_tbl db)
               then Inl (UniqueViolation ''requests_ride_id_passenger_id_key'')
             else if rideId \<notin> set (map id_ride (rides_tbl db))
               then Inl (ForeignKeyViolation ''requests_ride_id_fkey'')
             else if (case passengerId of
                        None \<Rightarrow> False
                      | Some p \<Rightarrow> p \<notin> set (map fst (profiles_tbl db)))
               then Inl (ForeignKeyViolation ''requests_passenger_id_fkey'')
             else Inr (db\<lparr>requests_tbl := requests_tbl db @
                        [\<lparr>id_req = new_id, ride_id = rideId, passenger_id = passengerId,
                          seats_requested = n, status = Pending,
                          contact_email = email, contact_name = name\<rparr>]\<rparr>)))"

text \<open>\<^verbatim>\<open>FindRide.handleBooking\<close>\<close>

definition handleBooking ::
  "uuid option \<Rightarrow> ride option \<Rightarrow> int option \<Rightarrow> string \<Rightarrow> string \<Rightarrow> string option \<Rightarrow> uuid
     \<Rightarrow> database \<Rightarrow> database \<times> toast option" where
  "handleBooking user selectedRide seatsToBook guestEmail guestName reply new_id db =
     (case selectedRide of
        None \<Rightarrow> (db, None)
      | Some sel \<Rightarrow>
         (case user of
            None \<Rightarrow>
              if guestEmail = [] then (db, Some EmailRequired)
              else
               (case insert_request reply new_id (id_ride sel) None seatsToBook (Some guestEmail)
                       (if guestName = [] then None else Some guestName) db of
                  Inl err \<Rightarrow> (db, Some (ErrorToast err))
                | Inr db' \<Rightarrow> (db', Some RequestSent))
          | Some uid \<Rightarrow>
              (case insert_request reply new_id (id_ride sel) (Some uid) seatsToBook None None db of
                 Inl err \<Rightarrow> (db, Some (ErrorToast err))
               | Inr db' \<Rightarrow> (db', Some RequestSent))))"

text \<open>
  A guest sending one request after the other for the same ride, each with the id the
  database generates for it; and the guest requests of a ride.
\<close>

fun guest_bookings :: "ride \<Rightarrow> int \<Rightarrow> string \<Rightarrow> uuid list \<Rightarrow> database \<Rightarrow> database" where
  "guest_bookings sel n guestEmail [] db = db"
| "guest_bookings sel n guestEmail (new_id # ids) db =
     guest_bookings sel n guestEmail ids
       (fst (handleBooking None (Some sel) (Some n) guestEmail [] None new_id db))"

definition guest_requests :: "database \<Rightarrow> uuid \<Rightarrow> request list" where
  "guest_requests db rideId =
     filter (\<lambda>q. ride_id q = rideId \<and> passenger_id q = None) (requests_tbl db)"

section \<open>The seat invariant\<close>

definition approved_seats :: "database \<Rightarrow> uuid \<Rightarrow> int" where
  "approved_seats db rideId =
     sum_list (map seats_requested
       (filter (\<lambda>q. ride_id q = rideId \<and> status q = Approved) (requests_tbl db)))"

definition seats_consistent :: "database \<Rightarrow> bool" where
  "seats_consistent db =
     list_all (\<lambda>r. available_seats r = total_seats r - approved_seats db (id_ride r)) (rides_tbl db)"

section \<open>Concurrent decisions\<close>

text \<open>
  A call of \<open>handleRequestDecision\<close> reads nothing from the database: which statements
  it sends, and with which values, is fixed by the React state at the start of the call.
  \<open>statements\<close> lists them in order. Between two awaited statements of one call the
  statements of another call can be executed, so two concurrent calls are an interleaving
  of their statement lists. \<open>run_call\<close> executes one call's statements alone and stops
  at the first error, as the \<^verbatim>\<open>throw\<close> does; \<open>run_two\<close> executes an
  interleaving of two calls, each statement tagged with its call, a call that has met an
  error sending nothing more. The backend executes every statement it is sent, so the
  only errors are those of the constraints.
\<close>

datatype statement = UpdateRequestStatus uuid request_status | UpdateRideAvailable uuid int

definition execute :: "statement \<Rightarrow> database \<Rightarrow> error + database" where
  "execute st db =
     (case st of
        UpdateRequestStatus requestId s \<Rightarrow> update_request_status None requestId s db
      | UpdateRideAvailable rideId n \<Rightarrow> update_ride_available None rideId n db)"

definition statements :: "dashboard \<Rightarrow> uuid \<Rightarrow> uuid \<Rightarrow> decision \<Rightarrow> statement list" where
  "statements d requestId rideId decision =
     (case find (\<lambda>r. id_req r = requestId) (concat (map snd (requestsByRide d))) of
        None \<Rightarrow> []
      | Some request \<Rightarrow>
     (case find (\<lambda>r. id_ride r = rideId) (rides d) of
        None \<Rightarrow> []
      | Some ride \<Rightarrow>
         (case decision of
            Approve \<Rightarrow>
              if seats_requested request \<le> available_seats ride
              then [UpdateRequestStatus requestId Approved,
                    UpdateRideAvailable rideId (available_seats ride - seats_requested request)]
              else [UpdateRequestStatus requestId Denied]
          | Deny \<Rightarrow> [UpdateRequestStatus requestId Denied])))"

fun run_call :: "statement list \<Rightarrow> database \<Rightarrow> database" where
  "run_call [] db = db"
| "run_call (st # sts) db = (case execute st db of Inl e \<Rightarrow> db | Inr db' \<Rightarrow> run_call sts db')"

fun interleavings :: "'a list \<Rightarrow> 'a list \<Rightarrow> 'a list list" where
  "interleavings [] ys = [ys]"
| "interleavings (x # xs) [] = [x # xs]"
| "interleavings (x # xs) (y # ys) =
     map ((#) x) (interleavings xs (y # ys)) @ map ((#) y) (interleavings (x # xs) ys)"

fun run_two :: "(bool \<times> statement) list \<Rightarrow> bool \<Rightarrow> bool \<Rightarrow> database \<Rightarrow> database" where
  "run_two [] stopped1 stopped2 db = db"
| "run_two ((second, st) # rest) stopped1 stopped2 db =
     (if (if second then stopped2 else stopped1) then run_two rest stopped1 stopped2 db
      else case execute st db of
             Inl e \<Rightarrow> (if second then run_two rest stopped1 True db else run_two rest True stopped2 db)
           | Inr db' \<Rightarrow> run_two rest stopped1 stopped2 db')"

text \<open>The status of every request and the seats of every ride, in table order.\<close>

definition outcome_of :: "database \<Rightarrow> request_status list \<times> int list" where
  "outcome_of db = (map status (requests_tbl db), map available_seats (rides_tbl db))"

section \<open>A worked example\<close>

text \<open>
  Three profiles; the driver posts a trip with three seats, two passengers each request
  two seats, and the driver's dashboard loads the data.
\<close>

definition example_start :: database where
  "example_start =
     \<lparr>profiles_tbl = [(''d1'', ''Dana''), (''p1'', ''Pat''), (''p2'', ''Sam'')],
      rides_tbl = [], requests_tbl = []\<rparr>"

definition example_posted :: database where
  "example_posted =
     fst (handleSubmit (Some ''d1'') ''Ithaca'' ''Boston'' (Some 5000) 3 [] [] None ''r1'' example_start)"

definition example_find :: find_ride where
  "example_find =
     fst (fetchRides None 1000 example_posted \<lparr>rides_found = [], origins = [], destinations = []\<rparr>)"

definition example_selected :: "ride option" where
  "example_selected = find (\<lambda>r. id_ride r = ''r1'') (rides_found example_find)"

definition example_one_request :: database where
  "example_one_request =
     fst (handleBooking (Some ''p1'') example_selected (Some 2) [] [] None ''q1'' example_posted)"

definition example_requested :: database where
  "example_requested =
     fst (handleBooking (Some ''p2'') example_selected (Some 2) [] [] None ''q2'' example_one_request)"

definition example_dashboard :: dashboard where
  "example_dashboard =
     fst (fetchData (Some ''d1'') 1000 None None example_requested \<lparr>rides = [], requestsByRide = []\<rparr>)"

text \<open>The database after the driver has approved, respectively denied, the first request.\<close>

definition example_first_approved :: database where
  "example_first_approved =
     fst (handleRequestDecision example_dashboard None None ''q1'' ''r1'' Approve example_requested)"

definition example_first_denied :: database where
  "example_first_denied =
     fst (handleRequestDecision example_dashboard None None ''q1'' ''r1'' Deny example_requested)"

text \<open>The dashboard reloaded after the first approval: one seat is left.\<close>

definition example_reloaded :: dashboard where
  "example_reloaded =
     fst (fetchData (Some ''d1'') 1000 None None example_first_approved example_dashboard)"

text \<open>Two more trips of the same driver, one of them already departed at time 1000.\<close>

definition example_three_rides :: database where
  "example_three_rides =
     fst (handleSubmit (Some ''d1'') ''Albany'' ''Boston'' (Some 500) 2 [] [] None ''r3''
       (fst (handleSubmit (Some ''d1'') ''Ithaca'' ''Albany'' (Some 3000) 4 [] [] None ''r2''
          example_posted)))"

text \<open>The second request decided on the reloaded dashboard, which shows one seat.\<close>

definition example_auto_denied :: "database \<times> toast option \<times> bool" where
  "example_auto_denied =
     handleRequestDecision example_reloaded None None ''q2'' ''r1'' Approve example_first_approved"

text \<open>
  The same approval of the second request in the same database, first from the dashboard
  as loaded before the first approval, which still shows three seats, and then from the
  reloaded dashboard when the backend does not execute the update of the request.
\<close>

definition example_stale_approval :: "database \<times> toast option \<times> bool" where
  "example_stale_approval =
     handleRequestDecision example_dashboard None None ''q2'' ''r1'' Approve example_first_approved"

definition example_denial_lost :: "database \<times> toast option \<times> bool" where
  "example_denial_lost =
     handleRequestDecision example_reloaded (Some ''Failed to fetch'') None ''q2'' ''r1'' Approve
       example_first_approved"

text \<open>
  A second decision issued from the same rendered dashboard, which still shows the first
  request as pending: a denial after the denial, and a denial after the approval.
\<close>

definition example_second_deny :: "database \<times> toast option \<times> bool" where
  "example_second_deny =
     handleRequestDecision example_dashboard None None ''q1'' ''r1'' Deny example_first_denied"

definition example_deny_approved :: "database \<times> toast option \<times> bool" where
  "example_deny_approved =
     handleRequestDecision example_dashboard None None ''q1'' ''r1'' Deny example_first_approved"

text \<open>The same for an approval as second decision: after the denial, and after the approval.\<close>

definition example_approve_denied :: "database \<times> toast option \<times> bool" where
  "example_approve_denied =
     handleRequestDecision example_dashboard None None ''q1'' ''r1'' Approve example_first_denied"

definition example_approve_approved :: "database \<times> toast option \<times> bool" where
  "example_approve_approved =
     handleRequestDecision example_dashboard None None ''q1'' ''r1'' Approve example_first_approved"

text \<open>The page of open rides loaded at time 1000 from the three rides of the example.\<close>

definition example_listing :: "find_ride \<times> toast option" where
  "example_listing =
     fetchRides None 1000 example_three_rides \<lparr>rides_found = [], origins = [], destinations = []\<rparr>"

text \<open>Both requests approved from the dashboard loaded before either approval.\<close>

definition example_both_approved :: database where
  "example_both_approved =
     fst (handleRequestDecision example_dashboard None None ''q2'' ''r1'' Approve example_first_approved)"

text \<open>The first approval when the backend fails on the second statement.\<close>

definition example_ride_update_fails :: "database \<times> toast option \<times> bool" where
  "example_ride_update_fails =
     handleRequestDecision example_dashboard None (Some ''Failed to fetch'') ''q1'' ''r1'' Approve
       example_requested"

text \<open>The interleavings of the two approvals issued from the loaded dashboard.\<close>

definition example_schedules :: "(bool \<times> statement) list list" where
  "example_schedules =
     interleavings (map (Pair False) (statements example_dashboard ''q1'' ''r1'' Approve))
                   (map (Pair True) (statements example_dashboard ''q2'' ''r1'' Approve))"

text \<open>What each of these interleavings leaves in the database.\<close>

definition example_outcomes :: "(request_status list \<times> int list) list" where
  "example_outcomes =
     map (\<lambda>schedule. outcome_of (run_two schedule False False example_requested)) example_schedules"

section \<open>The arithmetic of JavaScript numbers\<close>

text \<open>
  \<open>digits b n\<close> is the number of digits of \<open>n\<close> in base \<open>b\<close>, and \<open>ilog b x\<close> the
  exponent of \<open>x\<close>: the power of \<open>b\<close> at or below \<open>x\<close>.
\<close>

lemma digits_bounds:
  "1 < b \<Longrightarrow> 0 < n \<Longrightarrow> b ^ digits b n \<le> b * n \<and> n < b ^ digits b n"
proof (induction b n rule: digits.induct)
  case (1 b n)
  from "1.prems" have d: "digits b n = Suc (digits b (n div b))"
    by (subst digits.simps) simp
  have eq: "b * (n div b) + n mod b = n"
    by simp
  have md: "0 \<le> n mod b" "n mod b < b"
    using "1.prems" by simp_all
  from eq md have le: "b * (n div b) \<le> n"
    by linarith
  have "b * (n div b + 1) = b * (n div b) + b"
    by (simp add: distrib_left)
  with eq md have lt: "n < b * (n div b + 1)"
    by linarith
  show ?case
  proof (cases "n div b = 0")
    case True
    then have "digits b n = 1"
      unfolding d by (subst digits.simps) simp
    moreover from True lt have "n < b" by simp
    ultimately show ?thesis using "1.prems" by simp
  next
    case False
    with "1.prems" have pos: "0 < n div b"
      by (simp add: pos_imp_zdiv_nonneg_iff less_le)
    from "1.IH" "1.prems" pos
    have ih: "b ^ digits b (n div b) \<le> b * (n div b)" "n div b < b ^ digits b (n div b)"
      by simp_all
    have "b * b ^ digits b (n div b) \<le> b * (b * (n div b))"
      using ih(1) "1.prems"(1) by simp
    also have "\<dots> \<le> b * n"
      using le "1.prems"(1) by simp
    finally have A: "b ^ digits b n \<le> b * n"
      by (simp add: d)
    from ih(2) have "n div b + 1 \<le> b ^ digits b (n div b)" by simp
    then have "b * (n div b + 1) \<le> b * b ^ digits b (n div b)"
      using "1.prems"(1) by simp
    with lt have "n < b ^ digits b n"
      by (simp add: d)
    with A show ?thesis by simp
  qed
qed


lemma ilog_bounds:
  assumes b: "1 < b" and x: "0 < x"
  shows "rat_of_int b powi ilog b x \<le> x \<and> x < rat_of_int b powi (ilog b x + 1)"
proof -
  obtain p q where pq: "quotient_of x = (p, q)"
    by (cases "quotient_of x")
  then have q: "0 < q" and xe: "x = rat_of_int p / rat_of_int q"
    using quotient_of_denom_pos quotient_of_div by blast+
  from x xe q have p: "0 < p"
    by (simp add: zero_less_divide_iff)
  let ?B = "rat_of_int b"
  let ?P = "?B ^ digits b p" and ?Q = "?B ^ digits b q"
  have B: "0 < ?B" "?B \<noteq> 0"
    using b by simp_all
  have pos: "0 < ?P" "0 < ?Q" "0 < rat_of_int p" "0 < rat_of_int q"
    using B p q by simp_all
  have "rat_of_int (b ^ digits b p) \<le> rat_of_int (b * p)" "rat_of_int p < rat_of_int (b ^ digits b p)"
       "rat_of_int (b ^ digits b q) \<le> rat_of_int (b * q)" "rat_of_int q < rat_of_int (b ^ digits b q)"
    using digits_bounds [OF b p] digits_bounds [OF b q] by (simp_all only: of_int_le_iff of_int_less_iff)
  then have P1: "?P \<le> ?B * rat_of_int p" and P2: "rat_of_int p < ?P"
        and Q1: "?Q \<le> ?B * rat_of_int q" and Q2: "rat_of_int q < ?Q"
    by simp_all
  define e where "e = int (digits b p) - int (digits b q)"
  have pw: "?B powi e = ?P / ?Q"
    using B by (simp add: e_def power_int_diff)
  have "rat_of_int p * ?Q \<le> rat_of_int p * (?B * rat_of_int q)"
    using Q1 pos by (simp add: mult_left_mono)
  also have "\<dots> < ?P * (?B * rat_of_int q)"
    using P2 pos B by (simp add: mult_strict_right_mono)
  finally have "rat_of_int p / rat_of_int q < ?P / ?Q * ?B"
    using pos by (simp add: field_simps)
  then have up: "x < ?B powi (e + 1)"
    using B by (simp add: xe pw power_int_add)
  have "?P * rat_of_int q < ?P * ?Q"
    using Q2 pos by (simp add: mult_strict_left_mono)
  also have "\<dots> \<le> (?B * rat_of_int p) * ?Q"
    using P1 pos by (simp add: mult_right_mono)
  finally have "?P / ?Q / ?B < rat_of_int p / rat_of_int q"
    using pos B by (simp add: field_simps)
  then have lo: "?B powi (e - 1) < x"
    using B by (simp add: xe pw power_int_diff)
  have il: "ilog b x = (if ?B powi e \<le> x then e else e - 1)"
    by (simp add: ilog_def pq e_def Let_def)
  show ?thesis
  proof (cases "?B powi e \<le> x")
    case True
    with il up show ?thesis by simp
  next
    case False
    with il lo show ?thesis by simp
  qed
qed

text \<open>
  Rounding to the nearest integer is monotone at the integers, so that a number between
  two powers of two is rounded to a number between them: no finite double becomes
  infinite below \<open>2 powi 1024\<close>, and rounding keeps the sign.
\<close>

lemma round_half_even_ge: "rat_of_int n \<le> r \<Longrightarrow> n \<le> round_half_even r"
proof -
  assume "rat_of_int n \<le> r"
  then have "n \<le> \<lfloor>r\<rfloor>"
    by (simp add: le_floor_iff)
  then show ?thesis
    by (simp add: round_half_even_def Let_def)
qed

lemma round_half_even_le: "r \<le> rat_of_int n \<Longrightarrow> round_half_even r \<le> n"
proof -
  assume le: "r \<le> rat_of_int n"
  then have f: "\<lfloor>r\<rfloor> \<le> n"
    by (simp add: floor_le_iff)
  show ?thesis
  proof (cases "\<lfloor>r\<rfloor> = n")
    case True
    with le have "r = rat_of_int \<lfloor>r\<rfloor>"
      using of_int_floor_le [of r] by simp
    then have "r - rat_of_int \<lfloor>r\<rfloor> < 1 / 2"
      by simp
    with True show ?thesis
      by (simp add: round_half_even_def Let_def)
  next
    case False
    with f have "\<lfloor>r\<rfloor> + 1 \<le> n"
      by simp
    with f show ?thesis
      by (simp add: round_half_even_def Let_def)
  qed
qed


lemma binary64_pos:
  assumes "0 < x"
  shows "binary64 x =
           (let ulp = 2 powi (max (ilog 2 x) (- 1022) - 52);
                y = rat_of_int (round_half_even (x / ulp)) * ulp
            in if 2 powi 1024 \<le> y then None else Some y)"
  using assms by (simp add: binary64_def Let_def)

lemma powi_multiple:
  assumes "j \<le> k"
  shows "(2::rat) powi k = rat_of_int (2 ^ nat (k - j)) * 2 powi j"
proof -
  have "(2::rat) powi k = 2 powi (k - j) * 2 powi j"
    by (simp flip: power_int_add)
  also from assms have "(2::rat) powi (k - j) = rat_of_int (2 ^ nat (k - j))"
    by (simp add: power_int_def)
  finally show ?thesis .
qed

lemma binary64_le:
  assumes x: "0 \<le> x" "x \<le> 2 powi k" and k: "0 \<le> k" "k \<le> 1023"
  shows "\<exists>y. binary64 x = Some y \<and> 0 \<le> y \<and> y \<le> 2 powi k"
proof (cases "x = 0")
  case True
  then show ?thesis
    by (simp add: binary64_def)
next
  case False
  with x have pos: "0 < x"
    by simp
  define e where "e = max (ilog 2 x) (- 1022)"
  define u :: rat where "u = 2 powi (e - 52)"
  define N where "N = round_half_even (x / u)"
  have u: "0 < u"
    by (simp add: u_def)
  from ilog_bounds [of 2 x] pos have "(2::rat) powi ilog 2 x \<le> x"
    by simp
  with x(2) have "(2::rat) powi ilog 2 x \<le> 2 powi k"
    by simp
  then have "ilog 2 x \<le> k"
    using power_int_strict_increasing [of k "ilog 2 x" "2::rat"] by (cases "ilog 2 x \<le> k") simp_all
  with k have "e - 52 \<le> k"
    by (simp add: e_def)
  from powi_multiple [OF this] have m: "(2::rat) powi k = rat_of_int (2 ^ nat (k - (e - 52))) * u"
    by (simp add: u_def)
  with x(2) u have "x / u \<le> rat_of_int (2 ^ nat (k - (e - 52)))"
    by (simp add: pos_divide_le_eq)
  from round_half_even_le [OF this] have "N \<le> 2 ^ nat (k - (e - 52))"
    by (simp add: N_def)
  then have "rat_of_int N \<le> rat_of_int (2 ^ nat (k - (e - 52)))"
    by (simp only: of_int_le_iff)
  with u have le: "rat_of_int N * u \<le> 2 powi k"
    unfolding m by (simp add: mult_right_mono)
  from k have "(2::rat) powi k < 2 powi 1024"
    by (intro power_int_strict_increasing) simp_all
  with le have lt: "\<not> 2 powi 1024 \<le> rat_of_int N * u"
    by simp
  from pos u have "0 \<le> x / u"
    by simp
  then have "rat_of_int 0 \<le> x / u"
    by simp
  from round_half_even_ge [OF this] u have "0 \<le> rat_of_int N * u"
    by (simp add: N_def)
  with le lt show ?thesis
    by (simp add: binary64_pos [OF pos] Let_def N_def u_def e_def)
qed

lemma binary64_ge:
  assumes x: "2 powi k \<le> x" and k: "- 1074 \<le> k" and y: "binary64 x = Some y"
  shows "2 powi k \<le> y"
proof -
  have "(0::rat) < 2 powi k"
    by (simp add: zero_less_power_int)
  then have pos: "0 < x"
    using x by (rule less_le_trans)
  define e where "e = max (ilog 2 x) (- 1022)"
  define u :: rat where "u = 2 powi (e - 52)"
  define N where "N = round_half_even (x / u)"
  have u: "0 < u"
    by (simp add: u_def)
  from y have ye: "y = rat_of_int N * u"
    by (simp add: binary64_pos [OF pos] Let_def N_def u_def e_def split: if_splits)
  show ?thesis
  proof (cases "e - 52 \<le> k")
    case True
    from powi_multiple [OF this] have m: "(2::rat) powi k = rat_of_int (2 ^ nat (k - (e - 52))) * u"
      by (simp add: u_def)
    with x u have "rat_of_int (2 ^ nat (k - (e - 52))) \<le> x / u"
      by (simp add: pos_le_divide_eq)
    from round_half_even_ge [OF this] have "2 ^ nat (k - (e - 52)) \<le> N"
      by (simp add: N_def)
    then have "rat_of_int (2 ^ nat (k - (e - 52))) \<le> rat_of_int N"
      by (simp only: of_int_le_iff)
    with u show ?thesis
      unfolding m ye by (simp add: mult_right_mono)
  next
    case False
    with k have e: "e = ilog 2 x" and ke: "k \<le> e"
      by (simp_all add: e_def max_def split: if_splits)
    from ilog_bounds [of 2 x] pos have "(2::rat) powi e \<le> x"
      by (simp add: e)
    moreover have m: "(2::rat) powi e = rat_of_int (2 ^ nat (e - (e - 52))) * u"
      by (rule powi_multiple [of "e - 52" e, folded u_def]) simp
    ultimately have "rat_of_int (2 ^ nat (e - (e - 52))) \<le> x / u"
      using u by (simp add: pos_le_divide_eq)
    from round_half_even_ge [OF this] have "2 ^ nat (e - (e - 52)) \<le> N"
      by (simp add: N_def)
    then have "rat_of_int (2 ^ nat (e - (e - 52))) \<le> rat_of_int N"
      by (simp only: of_int_le_iff)
    with u have "(2::rat) powi e \<le> y"
      unfolding m ye by (simp add: mult_right_mono)
    moreover from ke have "(2::rat) powi k \<le> 2 powi e"
      by (intro power_int_increasing) simp_all
    ultimately show ?thesis
      by simp
  qed
qed


lemma binary64_nonneg:
  assumes "0 \<le> x" and "binary64 x = Some y"
  shows "0 \<le> y"
proof (cases "x = 0")
  case True
  with assms(2) show ?thesis
    by (simp add: binary64_def)
next
  case False
  with assms(1) have pos: "0 < x"
    by simp
  define u :: rat where "u = 2 powi (max (ilog 2 x) (- 1022) - 52)"
  have u: "0 < u"
    by (simp add: u_def zero_less_power_int)
  with pos have "rat_of_int 0 \<le> x / u"
    by simp
  from round_half_even_ge [OF this] u have "0 \<le> rat_of_int (round_half_even (x / u)) * u"
    by simp
  with assms(2) show ?thesis
    by (simp add: binary64_pos [OF pos] Let_def u_def split: if_splits)
qed

text \<open>
  The decimal written for a number has its sign and reads back as the number.
\<close>

lemma shortest_digits_nonneg: "0 \<le> x \<Longrightarrow> 0 \<le> shortest_digits j x"
proof (induction j)
  case 0
  then show ?case by simp
next
  case (Suc j)
  define unit :: rat where "unit = 10 powi (ilog 10 x + 1 - (17 - int j))"
  have unit: "0 < unit"
    by (simp add: unit_def zero_less_power_int)
  with Suc.prems have "0 \<le> \<lfloor>x / unit\<rfloor>"
    by simp
  with unit have "0 \<le> rat_of_int \<lfloor>x / unit\<rfloor> * unit" "0 \<le> rat_of_int (\<lfloor>x / unit\<rfloor> + 1) * unit"
    by simp_all
  with Suc show ?case
    by (simp add: Let_def flip: unit_def)
qed

lemma Number_toString_nonneg: "0 \<le> x \<Longrightarrow> 0 \<le> Number_toString x"
  by (simp add: Number_toString_def shortest_digits_nonneg)

lemma shortest_digits_reads_back:
  "binary64 x = Some x \<Longrightarrow> binary64 (shortest_digits j x) = Some x"
  by (induction j) (simp_all add: Let_def)

text \<open>
  The estimate. The minutes are not negative, and they stay below \<open>2 ^ 39\<close> only for a
  distance below \<open>2 ^ 40\<close>; for such a distance the fuel cost and the cost per person
  are finite numbers and not negative.
\<close>

lemma mockDistance_nonneg: "0 \<le> mockDistance orig dest"
  by (simp add: mockDistance_def)

lemma mockDurationMinutes_bounds:
  assumes "0 \<le> miles" and "mockDurationMinutes miles = Some m"
  shows "0 \<le> m \<and> (m < 2 ^ 39 \<longrightarrow> miles < 2 ^ 40)"
proof -
  from assms(2) obtain hours minutes
    where h: "binary64 (rat_of_int miles / 55) = Some hours"
      and mm: "binary64 (hours * 60) = Some minutes"
      and m: "m = round minutes"
    by (auto simp: mockDurationMinutes_def split: option.splits)
  from assms(1) have "0 \<le> rat_of_int miles / 55"
    by simp
  from binary64_nonneg [OF this h] have h0: "0 \<le> hours" .
  then have "0 \<le> hours * 60"
    by simp
  from binary64_nonneg [OF this mm] have "0 \<le> minutes" .
  then have m0: "0 \<le> m"
    by (simp add: m round_def)
  have "2 ^ 39 \<le> m" if "2 ^ 40 \<le> miles"
  proof -
    from that have "rat_of_int (2 ^ 40) \<le> rat_of_int miles"
      by (simp only: of_int_le_iff)
    then have "2 powi 34 \<le> rat_of_int miles / 55"
      by simp
    from binary64_ge [OF this _ h] have "2 powi 34 \<le> hours"
      by simp
    then have "2 powi 39 \<le> hours * 60"
      by simp
    from binary64_ge [OF this _ mm] have "rat_of_int (2 ^ 39) \<le> minutes"
      by simp
    from round_mono [OF this] show ?thesis
      by (simp add: m)
  qed
  with m0 show ?thesis
    by (cases "miles < 2 ^ 40") simp_all
qed

lemma costPerPerson_finite:
  assumes "0 \<le> miles" and "miles < 2 ^ 40" and "0 \<le> seatsNum"
  shows "\<exists>fuel c. totalFuelCost miles = Some fuel \<and> 0 \<le> fuel \<and>
           costPerPerson miles seatsNum = Some c \<and> 0 \<le> c"
proof -
  from assms(2) have "miles \<le> 2 ^ 40"
    by simp
  then have "rat_of_int miles \<le> rat_of_int (2 ^ 40)"
    by (simp only: of_int_le_iff)
  then have "rat_of_int miles / AVG_MPG \<le> 2 powi 36"
    by (simp add: AVG_MPG_def)
  moreover from assms(1) have "0 \<le> rat_of_int miles / AVG_MPG"
    by (simp add: AVG_MPG_def)
  ultimately obtain gallons
    where g: "binary64 (rat_of_int miles / AVG_MPG) = Some gallons" "0 \<le> gallons" "gallons \<le> 2 powi 36"
    using binary64_le [of "rat_of_int miles / AVG_MPG" 36] by auto
  have "gallons * PRICE_PER_GALLON \<le> 2 powi 36 * 4"
    using g(2,3) by (intro mult_mono) (simp_all add: PRICE_PER_GALLON_def)
  then have "gallons * PRICE_PER_GALLON \<le> 2 powi 38"
    by simp
  moreover from g(2) have "0 \<le> gallons * PRICE_PER_GALLON"
    by (simp add: PRICE_PER_GALLON_def)
  ultimately obtain fuel
    where f: "binary64 (gallons * PRICE_PER_GALLON) = Some fuel" "0 \<le> fuel" "fuel \<le> 2 powi 38"
    using binary64_le [of "gallons * PRICE_PER_GALLON" 38] by auto
  from assms(3) have n: "1 \<le> rat_of_int (seatsNum + 1)" "seatsNum + 1 \<noteq> 0"
    by simp_all
  with f(2) have "fuel / rat_of_int (seatsNum + 1) \<le> fuel"
    using divide_left_mono [of 1 "rat_of_int (seatsNum + 1)" fuel] by (simp del: of_int_add)
  with f(3) have "fuel / rat_of_int (seatsNum + 1) \<le> 2 powi 38"
    by simp
  moreover from f(2) n(1) have "0 \<le> fuel / rat_of_int (seatsNum + 1)"
    by (simp del: of_int_add)
  ultimately obtain c
    where c: "binary64 (fuel / rat_of_int (seatsNum + 1)) = Some c" "0 \<le> c"
    using binary64_le [of "fuel / rat_of_int (seatsNum + 1)" 38] by auto
  from g(1) f(1) have "totalFuelCost miles = Some fuel"
    by (simp add: totalFuelCost_def)
  with c n(2) f(2) show ?thesis
    by (simp add: costPerPerson_def del: of_int_add)
qed



text \<open>
  How a double is computed on a given input: the exponent is determined by the two powers
  around the input, and a number of the format within less than half a unit in the last
  place of the input is its double, while a number further than half a unit away is not.
\<close>

lemma ilog_eqI:
  assumes b: "1 < b" and lo: "rat_of_int b powi e \<le> x" and hi: "x < rat_of_int b powi (e + 1)"
  shows "ilog b x = e"
proof -
  from b have B: "1 < rat_of_int b" "1 \<le> rat_of_int b" "0 < rat_of_int b"
    by simp_all
  have "0 < rat_of_int b powi e"
    using B(3) by (rule zero_less_power_int)
  then have x: "0 < x"
    using lo by (rule less_le_trans)
  note I = ilog_bounds [OF b x]
  have "ilog b x < e + 1"
  proof (rule ccontr)
    assume "\<not> ilog b x < e + 1"
    then have "e + 1 \<le> ilog b x"
      by simp
    from power_int_increasing [OF this B(2)] I hi show False
      by simp
  qed
  moreover have "e < ilog b x + 1"
  proof (rule ccontr)
    assume "\<not> e < ilog b x + 1"
    then have "ilog b x + 1 \<le> e"
      by simp
    from power_int_increasing [OF this B(2)] I lo show False
      by simp
  qed
  ultimately show ?thesis
    by simp
qed

lemma round_half_even_near:
  assumes "\<bar>r - rat_of_int N\<bar> < 1 / 2"
  shows "round_half_even r = N"
proof (cases "rat_of_int N \<le> r")
  case True
  with assms have "\<lfloor>r\<rfloor> = N"
    by (intro floor_unique) simp_all
  with assms True show ?thesis
    by (simp add: round_half_even_def Let_def)
next
  case False
  with assms have "\<lfloor>r\<rfloor> = N - 1"
    by (intro floor_unique) simp_all
  with assms False show ?thesis
    by (simp add: round_half_even_def Let_def)
qed

lemma round_half_even_error: "\<bar>rat_of_int (round_half_even r) - r\<bar> \<le> 1 / 2"
proof -
  have "rat_of_int \<lfloor>r\<rfloor> \<le> r" "r < rat_of_int \<lfloor>r\<rfloor> + 1"
    by linarith+
  then show ?thesis
    by (simp add: round_half_even_def Let_def)
qed

lemma powi_half: "(2::rat) powi (e - 53) = 2 powi (e - 52) / 2"
proof -
  have "(2::rat) powi (e - 53) = 2 powi ((e - 52) - 1)"
    by simp
  also have "\<dots> = 2 powi (e - 52) / 2"
    by (subst power_int_diff) simp_all
  finally show ?thesis .
qed

lemma binary64_near:
  assumes z: "2 powi e \<le> z" "z < 2 powi (e + 1)"
      and e: "- 1022 \<le> e" "e \<le> 1022"
      and x: "x = rat_of_int N * 2 powi (e - 52)"
      and close: "\<bar>z - x\<bar> < 2 powi (e - 53)"
  shows "binary64 z = Some x"
proof -
  have "(0::rat) < 2 powi e"
    by (simp add: zero_less_power_int)
  then have pos: "0 < z"
    using z(1) by (rule less_le_trans)
  from ilog_eqI [of 2 e z] z have il: "ilog 2 z = e"
    by simp
  define u :: rat where "u = 2 powi (e - 52)"
  have u: "0 < u"
    by (simp add: u_def zero_less_power_int)
  have "z / u - rat_of_int N = (z - x) / u"
    using u by (simp add: x u_def field_simps)
  then have "\<bar>z / u - rat_of_int N\<bar> = \<bar>z - x\<bar> / u"
    using u by simp
  also have "\<dots> < (u / 2) / u"
    using close u by (simp add: powi_half u_def divide_strict_right_mono)
  finally have "\<bar>z / u - rat_of_int N\<bar> < 1 / 2"
    using u by simp
  from round_half_even_near [OF this] have N: "round_half_even (z / u) = N" .
  have "x < z + 2 powi (e - 53)"
    using close by linarith
  also have "(2::rat) powi (e - 53) \<le> 2 powi (e + 1)"
    by (intro power_int_increasing) simp_all
  finally have "x < 2 powi (e + 1) + 2 powi (e + 1)"
    using z(2) by simp
  also have "\<dots> = (2::rat) powi (e + 2)"
    by (simp add: power_int_add)
  also from e have "\<dots> \<le> (2::rat) powi 1024"
    by (intro power_int_increasing) simp_all
  finally have "\<not> 2 powi 1024 \<le> x" 
    by simp
  with e N show ?thesis
    by (simp add: binary64_pos [OF pos] il Let_def x flip: u_def)
qed

lemma binary64_far:
  assumes x: "0 < x" "x < 2 powi (e + 1)" and e: "- 1022 \<le> e"
      and z: "0 < z" and far: "2 powi (e - 53) < \<bar>z - x\<bar>"
  shows "binary64 z \<noteq> Some x"
proof
  assume eq: "binary64 z = Some x"
  define ez where "ez = max (ilog 2 z) (- 1022)"
  define u :: rat where "u = 2 powi (ez - 52)"
  have u: "0 < u"
    by (simp add: u_def zero_less_power_int)
  from eq have xe: "x = rat_of_int (round_half_even (z / u)) * u"
    by (simp add: binary64_pos [OF z] Let_def u_def ez_def split: if_splits)
  have "ez \<le> e"
  proof (rule ccontr)
    assume "\<not> ez \<le> e"
    with e have "ez = ilog 2 z" and "e + 1 \<le> ez"
      by (simp_all add: ez_def max_def split: if_splits)
    with ilog_bounds [of 2 z] z have "(2::rat) powi ez \<le> z"
      by simp
    moreover from \<open>e + 1 \<le> ez\<close> have "(2::rat) powi (e + 1) \<le> 2 powi ez"
      by (intro power_int_increasing) simp_all
    ultimately have "(2::rat) powi (e + 1) \<le> z"
      by simp
    from binary64_ge [OF this _ eq] e x(2) show False
      by simp
  qed
  have "z - x = (z / u - rat_of_int (round_half_even (z / u))) * u"
    using u by (simp add: xe left_diff_distrib)
  then have "\<bar>z - x\<bar> = \<bar>z / u - rat_of_int (round_half_even (z / u))\<bar> * \<bar>u\<bar>"
    by (simp only: abs_mult)
  also have "\<dots> = \<bar>rat_of_int (round_half_even (z / u)) - z / u\<bar> * u"
    using u by (simp add: abs_minus_commute)
  also have "\<dots> \<le> 1 / 2 * u"
    using round_half_even_error [of "z / u"] u by (intro mult_right_mono) simp_all
  also have "\<dots> = 2 powi (ez - 53)"
    by (simp add: powi_half u_def)
  also from \<open>ez \<le> e\<close> have "\<dots> \<le> (2::rat) powi (e - 53)"
    by (intro power_int_increasing) simp_all
  finally show False
    using far by simp
qed


lemma floor_divide_numeral: "\<lfloor>(numeral a / numeral b :: rat)\<rfloor> = numeral a div numeral b"
  using floor_divide_of_int_eq [of "numeral a" "numeral b", where ?'a = rat] by simp


lemma shortest_digits_numeral:
  "shortest_digits (numeral n) x =
     (let k = 17 - int (pred_numeral n);
          unit = 10 powi (ilog 10 x + 1 - k);
          s = \<lfloor>x / unit\<rfloor>;
          lo = rat_of_int s * unit;
          hi = rat_of_int (s + 1) * unit
      in if binary64 lo = Some x \<and> binary64 hi = Some x
         then (if x - lo < hi - x then lo else if hi - x < x - lo then hi
               else if even s then lo else hi)
         else if binary64 lo = Some x then lo
         else if binary64 hi = Some x then hi
         else shortest_digits (pred_numeral n) x)"
  by (simp only: numeral_eq_Suc shortest_digits.simps)

section \<open>The rows of the worked example\<close>

text \<open>
  The constant of the price per gallon is the double of the literal \<^verbatim>\<open>3.85\<close>.
\<close>

lemma PRICE_PER_GALLON_literal: "binary64 (385 / 100) = Some PRICE_PER_GALLON"
proof -
  have "binary64 (77 / 20) = Some (8669429282688205 / 2251799813685248)"
    by (rule binary64_near [where e = "1" and N = 8669429282688205]) simp_all
  then show ?thesis
    by (simp add: PRICE_PER_GALLON_def)
qed

text \<open>
  A signed-in driver's submission is posted when the backend executes the insert, the
  dates are in the range of the column, the seat count is a positive \<^verbatim>\<open>INTEGER\<close>, the
  stored cost is not negative and the id is new.
\<close>

lemma handleSubmit_posts:
  assumes est: "mockDurationMinutes (mockDistance orig dest) = Some minutes"
        "costPerPerson (mockDistance orig dest) seatsNum = Some c"
        "decimal_10_2 (Number_toString c) = Inr stored"
      and dates: "timestamptz t" "timestamptz (t + minutes * 60000)"
      and seats: "1 \<le> seatsNum" "int4 seatsNum"
      and cost: "0 \<le> stored"
      and keys: "new_id \<notin> set (map id_ride (rides_tbl db))" "uid \<in> set (map fst (profiles_tbl db))"
  shows "handleSubmit (Some uid) orig dest (Some t) seatsNum guestEmail guestName None new_id db =
           (db\<lparr>rides_tbl := rides_tbl db @
                [\<lparr>id_ride = new_id, driver_id = Some uid, origin = orig, destination = dest,
                  departure_time = t, arrival_time = t + minutes * 60000,
                  total_seats = seatsNum, available_seats = seatsNum,
                  cost_per_person = Some stored,
                  contact_email_ride = None, contact_name_ride = None\<rparr>]\<rparr>,
            Some TripPosted)"
proof -
  from dates have range: "\<bar>t\<bar> \<le> 8640000000000000" "\<bar>t + minutes * 60000\<bar> \<le> 8640000000000000"
    unfolding timestamptz_def by linarith+
  let ?row = "\<lparr>id_ride = new_id, driver_id = Some uid, origin = orig, destination = dest,
                  departure_time = t, arrival_time = t + minutes * 60000,
                  total_seats = seatsNum, available_seats = seatsNum,
                  cost_per_person = Some c,
                  contact_email_ride = None, contact_name_ride = None\<rparr>"
  from est(1,2) range
  have row: "ride_values new_id (Some uid) orig dest (Some t) seatsNum None None = Inr ?row"
    by (simp add: ride_values_def new_Date_def toISOString_def Let_def)
  from est(3) dates seats cost keys
  have "insert_ride None ?row db = Inr (db\<lparr>rides_tbl := rides_tbl db @ [?row\<lparr>cost_per_person := Some stored\<rparr>]\<rparr>)"
    by (simp add: insert_ride_def ride_checks_def Let_def)
  with row show ?thesis
    by (simp add: handleSubmit_def)
qed

text \<open>
  The three trips of the example are twelve characters long in origin and destination,
  144 miles: 157 minutes, and a fuel cost of 22.176 divided by four, five and three
  people.
\<close>

lemma example_minutes: "mockDurationMinutes 144 = Some 157"
proof -
  have hours: "binary64 (144 / 55) = Some (2947810665187961 / 1125899906842624)"
    by (rule binary64_near [where e = "1" and N = 5895621330375922]) simp_all
  have minutes: "binary64 (44217159977819415 / 281474976710656) = Some (5527144997227427 / 35184372088832)"
    by (rule binary64_near [where e = "7" and N = 5527144997227427]) simp_all
  have rounded: "round (5527144997227427 / 35184372088832 :: rat) = 157"
    by (simp add: round_def floor_divide_numeral)
  show ?thesis
    by (simp add: mockDurationMinutes_def hours minutes rounded)
qed

lemma example_fuel: "totalFuelCost 144 = Some (6241989083535507 / 281474976710656)"
proof -
  have gallons: "binary64 (144 / 25) = Some (3242591731706757 / 562949953421312)"
    by (rule binary64_near [where e = "2" and N = 6485183463413514]) simp_all
  have fuel: "binary64 (28111419710661214815777722701185 / 1267650600228229401496703205376) = Some (6241989083535507 / 281474976710656)"
    by (rule binary64_near [where e = "4" and N = 6241989083535507]) simp_all
  show ?thesis
    by (simp add: totalFuelCost_def AVG_MPG_def PRICE_PER_GALLON_def gallons fuel)
qed

lemma example_cost_r1: "costPerPerson 144 3 = Some (6241989083535507 / 1125899906842624)"
proof -
  have "binary64 (6241989083535507 / 1125899906842624) = Some (6241989083535507 / 1125899906842624)"
    by (rule binary64_near [where e = "2" and N = 6241989083535507]) simp_all
  then show ?thesis
    by (simp add: costPerPerson_def example_fuel)
qed

lemma example_text_r1: "Number_toString (6241989083535507 / 1125899906842624) = 693 / 125"
proof -
  have il: "ilog 10 (6241989083535507 / 1125899906842624) = 0"
    by (rule ilog_eqI) simp_all
  have far: "(binary64 z = Some (6241989083535507 / 1125899906842624)) = False"
    if "0 < z" and "2 powi (2 - 53) < \<bar>z - 6241989083535507 / 1125899906842624\<bar>" for z
    using binary64_far [of "6241989083535507 / 1125899906842624" "2" z] that by simp
  have near: "binary64 z = Some (6241989083535507 / 1125899906842624)"
    if "2 powi 2 \<le> z" and "z < 2 powi (2 + 1)" and "\<bar>z - 6241989083535507 / 1125899906842624\<bar> < 2 powi (2 - 53)" for z
    using that by (intro binary64_near [where e = "2" and N = 6241989083535507]) simp_all
  show ?thesis
    by (simp add: Number_toString_def shortest_digits_numeral il far near Let_def floor_divide_numeral)
qed

lemma example_stored_r1: "decimal_10_2 (Number_toString (6241989083535507 / 1125899906842624)) = Inr (277 / 50)"
  by (simp add: example_text_r1 decimal_10_2_def round_def floor_divide_numeral)

lemma example_cost_r2: "costPerPerson 144 4 = Some (2496795633414203 / 562949953421312)"
proof -
  have "binary64 (6241989083535507 / 1407374883553280) = Some (2496795633414203 / 562949953421312)"
    by (rule binary64_near [where e = "2" and N = 4993591266828406]) simp_all
  then show ?thesis
    by (simp add: costPerPerson_def example_fuel)
qed

lemma example_text_r2: "Number_toString (2496795633414203 / 562949953421312) = 2772 / 625"
proof -
  have il: "ilog 10 (2496795633414203 / 562949953421312) = 0"
    by (rule ilog_eqI) simp_all
  have far: "(binary64 z = Some (2496795633414203 / 562949953421312)) = False"
    if "0 < z" and "2 powi (2 - 53) < \<bar>z - 2496795633414203 / 562949953421312\<bar>" for z
    using binary64_far [of "2496795633414203 / 562949953421312" "2" z] that by simp
  have near: "binary64 z = Some (2496795633414203 / 562949953421312)"
    if "2 powi 2 \<le> z" and "z < 2 powi (2 + 1)" and "\<bar>z - 2496795633414203 / 562949953421312\<bar> < 2 powi (2 - 53)" for z
    using that by (intro binary64_near [where e = "2" and N = 4993591266828406]) simp_all
  show ?thesis
    by (simp add: Number_toString_def shortest_digits_numeral il far near Let_def floor_divide_numeral)
qed

lemma example_stored_r2: "decimal_10_2 (Number_toString (2496795633414203 / 562949953421312)) = Inr (111 / 25)"
  by (simp add: example_text_r2 decimal_10_2_def round_def floor_divide_numeral)

lemma example_cost_r3: "costPerPerson 144 2 = Some (2080663027845169 / 281474976710656)"
proof -
  have "binary64 (2080663027845169 / 281474976710656) = Some (2080663027845169 / 281474976710656)"
    by (rule binary64_near [where e = "2" and N = 8322652111380676]) simp_all
  then show ?thesis
    by (simp add: costPerPerson_def example_fuel)
qed

lemma example_text_r3: "Number_toString (2080663027845169 / 281474976710656) = 14783999999999999 / 2000000000000000"
proof -
  have il: "ilog 10 (2080663027845169 / 281474976710656) = 0"
    by (rule ilog_eqI) simp_all
  have far: "(binary64 z = Some (2080663027845169 / 281474976710656)) = False"
    if "0 < z" and "2 powi (2 - 53) < \<bar>z - 2080663027845169 / 281474976710656\<bar>" for z
    using binary64_far [of "2080663027845169 / 281474976710656" "2" z] that by simp
  have near: "binary64 z = Some (2080663027845169 / 281474976710656)"
    if "2 powi 2 \<le> z" and "z < 2 powi (2 + 1)" and "\<bar>z - 2080663027845169 / 281474976710656\<bar> < 2 powi (2 - 53)" for z
    using that by (intro binary64_near [where e = "2" and N = 8322652111380676]) simp_all
  show ?thesis
    by (simp add: Number_toString_def shortest_digits_numeral il far near Let_def floor_divide_numeral)
qed

lemma example_stored_r3: "decimal_10_2 (Number_toString (2080663027845169 / 281474976710656)) = Inr (739 / 100)"
  by (simp add: example_text_r3 decimal_10_2_def round_def floor_divide_numeral)

text \<open>
  The databases of the example after the trips are posted. These equations are used to
  evaluate the example from here on.
\<close>

lemma example_posted_call:
  "handleSubmit (Some ''d1'') ''Ithaca'' ''Boston'' (Some 5000) 3 [] [] None ''r1'' example_start =
     (\<lparr>profiles_tbl = [(''d1'', ''Dana''), (''p1'', ''Pat''), (''p2'', ''Sam'')],
       rides_tbl =
        [\<lparr>id_ride = ''r1'', driver_id = Some ''d1'', origin = ''Ithaca'',
         destination = ''Boston'', departure_time = 5000, arrival_time = 9425000,
         total_seats = 3, available_seats = 3, cost_per_person = Some (277 / 50),
         contact_email_ride = None, contact_name_ride = None\<rparr>],
       requests_tbl = []\<rparr>, Some TripPosted)"
  using handleSubmit_posts [where orig = "''Ithaca''" and dest = "''Boston''" and minutes = 157
        and seatsNum = 3 and c = "6241989083535507 / 1125899906842624" and stored = "277 / 50" and t = 5000
        and new_id = "''r1''" and uid = "''d1''" and db = "example_start"
        and guestEmail = "[]" and guestName = "[]"]
  by (simp add: mockDistance_def example_minutes example_cost_r1 example_stored_r1
        timestamptz_def int4_def example_start_def)

lemma example_posted_value:
  "example_posted =
     \<lparr>profiles_tbl = [(''d1'', ''Dana''), (''p1'', ''Pat''), (''p2'', ''Sam'')],
      rides_tbl =
        [\<lparr>id_ride = ''r1'', driver_id = Some ''d1'', origin = ''Ithaca'',
         destination = ''Boston'', departure_time = 5000, arrival_time = 9425000,
         total_seats = 3, available_seats = 3, cost_per_person = Some (277 / 50),
         contact_email_ride = None, contact_name_ride = None\<rparr>],
      requests_tbl = []\<rparr>"
  by (simp add: example_posted_def example_posted_call)

lemma example_three_rides_value:
  "example_three_rides =
     \<lparr>profiles_tbl = [(''d1'', ''Dana''), (''p1'', ''Pat''), (''p2'', ''Sam'')],
      rides_tbl =
        [\<lparr>id_ride = ''r1'', driver_id = Some ''d1'', origin = ''Ithaca'',
         destination = ''Boston'', departure_time = 5000, arrival_time = 9425000,
         total_seats = 3, available_seats = 3, cost_per_person = Some (277 / 50),
         contact_email_ride = None, contact_name_ride = None\<rparr>,
         \<lparr>id_ride = ''r2'', driver_id = Some ''d1'', origin = ''Ithaca'',
         destination = ''Albany'', departure_time = 3000, arrival_time = 9423000,
         total_seats = 4, available_seats = 4, cost_per_person = Some (111 / 25),
         contact_email_ride = None, contact_name_ride = None\<rparr>,
         \<lparr>id_ride = ''r3'', driver_id = Some ''d1'', origin = ''Albany'',
         destination = ''Boston'', departure_time = 500, arrival_time = 9420500,
         total_seats = 2, available_seats = 2, cost_per_person = Some (739 / 100),
         contact_email_ride = None, contact_name_ride = None\<rparr>],
      requests_tbl = []\<rparr>"
proof -
  have second: "handleSubmit (Some ''d1'') ''Ithaca'' ''Albany'' (Some 3000) 4 [] [] None ''r2'' example_posted =
     (\<lparr>profiles_tbl = [(''d1'', ''Dana''), (''p1'', ''Pat''), (''p2'', ''Sam'')], rides_tbl = [\<lparr>id_ride = ''r1'', driver_id = Some ''d1'', origin = ''Ithaca'',
         destination = ''Boston'', departure_time = 5000, arrival_time = 9425000,
         total_seats = 3, available_seats = 3, cost_per_person = Some (277 / 50),
         contact_email_ride = None, contact_name_ride = None\<rparr>, \<lparr>id_ride = ''r2'', driver_id = Some ''d1'', origin = ''Ithaca'',
         destination = ''Albany'', departure_time = 3000, arrival_time = 9423000,
         total_seats = 4, available_seats = 4, cost_per_person = Some (111 / 25),
         contact_email_ride = None, contact_name_ride = None\<rparr>], requests_tbl = []\<rparr>, Some TripPosted)"
    using handleSubmit_posts [where orig = "''Ithaca''" and dest = "''Albany''" and minutes = 157
        and seatsNum = 4 and c = "2496795633414203 / 562949953421312" and stored = "111 / 25" and t = 3000
        and new_id = "''r2''" and uid = "''d1''" and db = "example_posted"
        and guestEmail = "[]" and guestName = "[]"]
    by (simp add: mockDistance_def example_minutes example_cost_r2 example_stored_r2
          timestamptz_def int4_def example_posted_value)
  have third: "handleSubmit (Some ''d1'') ''Albany'' ''Boston'' (Some 500) 2 [] [] None ''r3''
       (\<lparr>profiles_tbl = [(''d1'', ''Dana''), (''p1'', ''Pat''), (''p2'', ''Sam'')], rides_tbl = [\<lparr>id_ride = ''r1'', driver_id = Some ''d1'', origin = ''Ithaca'',
         destination = ''Boston'', departure_time = 5000, arrival_time = 9425000,
         total_seats = 3, available_seats = 3, cost_per_person = Some (277 / 50),
         contact_email_ride = None, contact_name_ride = None\<rparr>, \<lparr>id_ride = ''r2'', driver_id = Some ''d1'', origin = ''Ithaca'',
         destination = ''Albany'', departure_time = 3000, arrival_time = 9423000,
         total_seats = 4, available_seats = 4, cost_per_person = Some (111 / 25),
         contact_email_ride = None, contact_name_ride = None\<rparr>], requests_tbl = []\<rparr>) =
     (\<lparr>profiles_tbl = [(''d1'', ''Dana''), (''p1'', ''Pat''), (''p2'', ''Sam'')], rides_tbl = [\<lparr>id_ride = ''r1'', driver_id = Some ''d1'', origin = ''Ithaca'',
         destination = ''Boston'', departure_time = 5000, arrival_time = 9425000,
         total_seats = 3, available_seats = 3, cost_per_person = Some (277 / 50),
         contact_email_ride = None, contact_name_ride = None\<rparr>, \<lparr>id_ride = ''r2'', driver_id = Some ''d1'', origin = ''Ithaca'',
         destination = ''Albany'', departure_time = 3000, arrival_time = 9423000,
         total_seats = 4, available_seats = 4, cost_per_person = Some (111 / 25),
         contact_email_ride = None, contact_name_ride = None\<rparr>, \<lparr>id_ride = ''r3'', driver_id = Some ''d1'', origin = ''Albany'',
         destination = ''Boston'', departure_time = 500, arrival_time = 9420500,
         total_seats = 2, available_seats = 2, cost_per_person = Some (739 / 100),
         contact_email_ride = None, contact_name_ride = None\<rparr>], requests_tbl = []\<rparr>, Some TripPosted)"
    using handleSubmit_posts [where orig = "''Albany''" and dest = "''Boston''" and minutes = 157
        and seatsNum = 2 and c = "2080663027845169 / 281474976710656" and stored = "739 / 100" and t = 500
        and new_id = "''r3''" and uid = "''d1''" and db = "\<lparr>profiles_tbl = [(''d1'', ''Dana''), (''p1'', ''Pat''), (''p2'', ''Sam'')], rides_tbl = [\<lparr>id_ride = ''r1'', driver_id = Some ''d1'', origin = ''Ithaca'',
         destination = ''Boston'', departure_time = 5000, arrival_time = 9425000,
         total_seats = 3, available_seats = 3, cost_per_person = Some (277 / 50),
         contact_email_ride = None, contact_name_ride = None\<rparr>, \<lparr>id_ride = ''r2'', driver_id = Some ''d1'', origin = ''Ithaca'',
         destination = ''Albany'', departure_time = 3000, arrival_time = 9423000,
         total_seats = 4, available_seats = 4, cost_per_person = Some (111 / 25),
         contact_email_ride = None, contact_name_ride = None\<rparr>], requests_tbl = []\<rparr>"
        and guestEmail = "[]" and guestName = "[]"]
    by (simp add: mockDistance_def example_minutes example_cost_r3 example_stored_r3
          timestamptz_def int4_def)
  show ?thesis
    by (simp add: example_three_rides_def second third)
qed

declare example_posted_value [code]
declare example_three_rides_value [code]

text \<open>
  The stored cost is the rounded double, not the rounded quotient of the exact
  quantities: for 85 characters and 7 seats the double is 19.634999999999998, stored as
  19.63, where the exact quotient 19.635 would be stored as 19.64.
\<close>

lemma stored_cost_follows_the_double:
  "costPerPerson (mockDistance (replicate 40 CHR ''a'') (replicate 45 CHR ''b'')) 7 =
     Some (2763380583856865 / 140737488355328) \<and>
   Number_toString (2763380583856865 / 140737488355328) = 9817499999999999 / 500000000000000 \<and>
   decimal_10_2 (9817499999999999 / 500000000000000) = Inr (1963 / 100) \<and>
   decimal_10_2 (1020 / 25 * (385 / 100) / 8) = Inr (491 / 25)"
proof -
  have gallons: "binary64 (204 / 5) = Some (2871044762448691 / 70368744177664)"
    by (rule binary64_near [where e = "5" and N = 5742089524897382]) simp_all
  have fuel: "binary64 (24890319535481283138710863389655 / 158456325028528675187087900672) = Some (2763380583856865 / 17592186044416)"
    by (rule binary64_near [where e = "7" and N = 5526761167713730]) simp_all
  have cost: "binary64 (2763380583856865 / 140737488355328) = Some (2763380583856865 / 140737488355328)"
    by (rule binary64_near [where e = "4" and N = 5526761167713730]) simp_all
  have c: "costPerPerson (mockDistance (replicate 40 CHR ''a'') (replicate 45 CHR ''b'')) 7 =
     Some (2763380583856865 / 140737488355328)"
    by (simp add: costPerPerson_def totalFuelCost_def mockDistance_def AVG_MPG_def
          PRICE_PER_GALLON_def gallons fuel cost)
  have il: "ilog 10 (2763380583856865 / 140737488355328) = 1"
    by (rule ilog_eqI) simp_all
  have far: "(binary64 z = Some (2763380583856865 / 140737488355328)) = False"
    if "0 < z" and "2 powi (4 - 53) < \<bar>z - 2763380583856865 / 140737488355328\<bar>" for z
    using binary64_far [of "2763380583856865 / 140737488355328" "4" z] that by simp
  have near: "binary64 z = Some (2763380583856865 / 140737488355328)"
    if "2 powi 4 \<le> z" and "z < 2 powi (4 + 1)" and "\<bar>z - 2763380583856865 / 140737488355328\<bar> < 2 powi (4 - 53)" for z
    using that by (intro binary64_near [where e = "4" and N = 5526761167713730]) simp_all
  have written: "Number_toString (2763380583856865 / 140737488355328) = 9817499999999999 / 500000000000000"
    by (simp add: Number_toString_def shortest_digits_numeral il far near Let_def floor_divide_numeral)
  have stored: "decimal_10_2 (9817499999999999 / 500000000000000) = Inr (1963 / 100)"
       "decimal_10_2 (1020 / 25 * (385 / 100) / 8) = Inr (491 / 25)"
    by (simp_all add: decimal_10_2_def round_def floor_divide_numeral)
  from c written stored show ?thesis
    by blast
qed

section \<open>Lemmas about the statements\<close>

lemma set_status_id_req: "id_req (set_status requestId st q) = id_req q"
  by (simp add: set_status_def)

lemma set_status_hit: "id_req q = requestId \<Longrightarrow> status (set_status requestId st q) = st"
  by (simp add: set_status_def)

lemma set_status_twice:
  "set_status requestId st (set_status requestId st q) = set_status requestId st q"
  by (simp add: set_status_def)

lemma set_status_denied_all:
  "\<forall>q \<in> set (map (set_status requestId st) qs). id_req q = requestId \<longrightarrow> status q = st"
  by (auto simp: set_status_id_req set_status_hit)

section \<open>Denying a request\<close>

text \<open>What a denial of a loaded request does, for either reply of the backend.\<close>

lemma handle_deny:
  assumes "find (\<lambda>r. id_req r = requestId) (concat (map snd (requestsByRide d))) = Some request"
      and "find (\<lambda>r. id_ride r = rideId) (rides d) = Some ride"
  shows "handleRequestDecision d reply1 reply2 requestId rideId Deny db =
     (case reply1 of
        Some msg \<Rightarrow> (db, Some (ErrorToast (BackendError msg)), False)
      | None \<Rightarrow>
         (db\<lparr>requests_tbl := map (set_status requestId Denied) (requests_tbl db)\<rparr>,
          (case profiles request of
             None \<Rightarrow> Some (ErrorToast TypeError)
           | Some full_name \<Rightarrow> Some (RequestDenied full_name)),
          profiles request \<noteq> None))"
  using assms
  by (simp add: handleRequestDecision_def update_request_status_def split: option.splits)

text \<open>
  C6. When the driver denies a request that the dashboard has loaded, the table of rides
  after the call is the table before it, whatever the backend replies: no field of any
  ride changes. When the backend executes the statement, the requests are the old ones
  with the status of the decided request set to denied, so every request with that id is
  then denied. The request's status before the call plays no part, so a pending request
  is covered.
\<close>

theorem deny_leaves_rides_unchanged:
  assumes "find (\<lambda>r. id_req r = requestId) (concat (map snd (requestsByRide d))) = Some request"
      and "find (\<lambda>r. id_ride r = rideId) (rides d) = Some ride"
      and "handleRequestDecision d reply1 reply2 requestId rideId Deny db = (db', outcome)"
  shows "rides_tbl db' = rides_tbl db \<and>
         (reply1 = None \<longrightarrow>
            requests_tbl db' = map (set_status requestId Denied) (requests_tbl db) \<and>
            (\<forall>q \<in> set (requests_tbl db'). id_req q = requestId \<longrightarrow> status q = Denied))"
proof -
  from assms(3) handle_deny [OF assms(1,2), of reply1 reply2 db]
  have db': "db' = (case reply1 of Some msg \<Rightarrow> db
          | None \<Rightarrow> db\<lparr>requests_tbl := map (set_status requestId Denied) (requests_tbl db)\<rparr>)"
    by (auto split: option.splits)
  then have "rides_tbl db' = rides_tbl db"
    by (simp split: option.splits)
  moreover have "requests_tbl db' = map (set_status requestId Denied) (requests_tbl db)"
    if "reply1 = None"
    using that db' by simp
  ultimately show ?thesis
    using set_status_denied_all [of requestId Denied "requests_tbl db"] by simp
qed

text \<open>
  In the example the first request is pending and loaded; denying it leaves the one ride
  with its three seats and turns the request's status to denied.
\<close>

theorem deny_leaves_rides_unchanged_witness:
  "map status (requests_tbl example_requested) = [Pending, Pending] \<and>
   rides_tbl example_first_denied = rides_tbl example_requested \<and>
   map available_seats (rides_tbl example_first_denied) = [3] \<and>
   map status (requests_tbl example_first_denied) = [Denied, Pending]"
proof -
  have found_request:
    "find (\<lambda>r. id_req r = ''q1'') (concat (map snd (requestsByRide example_dashboard))) =
       Some \<lparr>id_req = ''q1'', ride_id = ''r1'', passenger_id = Some ''p1'', seats_requested = 2,
             status = Pending, contact_email = None, contact_name = None,
             profiles = Some ''Pat''\<rparr>"
    by code_simp
  have found_ride:
    "find (\<lambda>r. id_ride r = ''r1'') (rides example_dashboard) =
       Some \<lparr>id_ride = ''r1'', driver_id = Some ''d1'', origin = ''Ithaca'',
             destination = ''Boston'', departure_time = 5000, arrival_time = 9425000,
             total_seats = 3, available_seats = 3, cost_per_person = Some (277 / 50),
             contact_email_ride = None, contact_name_ride = None\<rparr>"
    by code_simp
  have call: "handleRequestDecision example_dashboard None None ''q1'' ''r1'' Deny example_requested =
      (example_first_denied,
       snd (handleRequestDecision example_dashboard None None ''q1'' ''r1'' Deny example_requested))"
    by (simp add: example_first_denied_def)
  have before: "map status (requests_tbl example_requested) = [Pending, Pending]"
    by code_simp
  have seats: "map available_seats (rides_tbl example_requested) = [3]"
    by code_simp
  from deny_leaves_rides_unchanged [OF found_request found_ride call]
  have rides: "rides_tbl example_first_denied = rides_tbl example_requested"
    and reqs: "requests_tbl example_first_denied =
       map (set_status ''q1'' Denied) (requests_tbl example_requested)"
    by simp_all
  have "map status (requests_tbl example_first_denied) = [Denied, Pending]"
    unfolding reqs by code_simp
  with before rides seats show ?thesis by simp
qed

section \<open>Approving without enough seats\<close>

text \<open>
  What an approval does when the loaded ride has fewer seats than the loaded request asks
  for. The reply to the update is not inspected: the toast is the same either way.
\<close>

lemma handle_auto_deny:
  assumes "find (\<lambda>r. id_req r = requestId) (concat (map snd (requestsByRide d))) = Some request"
      and "find (\<lambda>r. id_ride r = rideId) (rides d) = Some ride"
      and "available_seats ride < seats_requested request"
  shows "handleRequestDecision d reply1 reply2 requestId rideId Approve db =
     ((case reply1 of
         Some msg \<Rightarrow> db
       | None \<Rightarrow> db\<lparr>requests_tbl := map (set_status requestId Denied) (requests_tbl db)\<rparr>),
      Some NotEnoughSeats, True)"
  using assms
  by (simp add: handleRequestDecision_def update_request_status_def split: option.splits)

text \<open>
  When the driver approves a request and the ride, as the dashboard has loaded it, has
  fewer available seats than the request as loaded asks for, the notification is "Not
  enough seats" and not an error, for every reply of the backend; the table of rides is
  unchanged; and when the backend executes the statement, the requests are the old ones
  with the decided request's status set to denied.
\<close>

lemma approve_without_seats_auto_denies:
  assumes "find (\<lambda>r. id_req r = requestId) (concat (map snd (requestsByRide d))) = Some request"
      and "find (\<lambda>r. id_ride r = rideId) (rides d) = Some ride"
      and "available_seats ride < seats_requested request"
      and "handleRequestDecision d reply1 reply2 requestId rideId Approve db = (db', outcome, refetch)"
  shows "outcome = Some NotEnoughSeats \<and> rides_tbl db' = rides_tbl db \<and>
         (reply1 = None \<longrightarrow>
            requests_tbl db' = map (set_status requestId Denied) (requests_tbl db) \<and>
            (\<forall>q \<in> set (requests_tbl db'). id_req q = requestId \<longrightarrow> status q = Denied))"
proof -
  note call = handle_auto_deny [OF assms(1-3), of reply1 reply2 db]
  from assms(4) call have outcome: "outcome = Some NotEnoughSeats"
    by simp
  from assms(4) call
  have db': "db' = (case reply1 of Some msg \<Rightarrow> db
          | None \<Rightarrow> db\<lparr>requests_tbl := map (set_status requestId Denied) (requests_tbl db)\<rparr>)"
    by simp
  show ?thesis
  proof (cases reply1)
    case None
    with db' have "requests_tbl db' = map (set_status requestId Denied) (requests_tbl db)"
      and "rides_tbl db' = rides_tbl db"
      by simp_all
    with outcome None show ?thesis
      using set_status_denied_all [of requestId Denied "requests_tbl db"] by simp
  next
    case (Some msg)
    with db' outcome show ?thesis by simp
  qed
qed

text \<open>
  Scenario B of the example: after the first approval the reloaded dashboard shows one
  seat, the second request asks for two; it is denied and the seat count stays at one.
\<close>

lemma approve_without_seats_auto_denies_witness:
  "map available_seats (rides example_reloaded) = [1] \<and>
   fst (snd example_auto_denied) = Some NotEnoughSeats \<and>
   rides_tbl (fst example_auto_denied) = rides_tbl example_first_approved \<and>
   map available_seats (rides_tbl (fst example_auto_denied)) = [1] \<and>
   map status (requests_tbl (fst example_auto_denied)) = [Approved, Denied]"
proof -
  have found_request:
    "find (\<lambda>r. id_req r = ''q2'') (concat (map snd (requestsByRide example_reloaded))) =
       Some \<lparr>id_req = ''q2'', ride_id = ''r1'', passenger_id = Some ''p2'', seats_requested = 2,
             status = Pending, contact_email = None, contact_name = None,
             profiles = Some ''Sam''\<rparr>"
    by code_simp
  have found_ride:
    "find (\<lambda>r. id_ride r = ''r1'') (rides example_reloaded) =
       Some \<lparr>id_ride = ''r1'', driver_id = Some ''d1'', origin = ''Ithaca'',
             destination = ''Boston'', departure_time = 5000, arrival_time = 9425000,
             total_seats = 3, available_seats = 1, cost_per_person = Some (277 / 50),
             contact_email_ride = None, contact_name_ride = None\<rparr>"
    by code_simp
  have call:
    "handleRequestDecision example_reloaded None None ''q2'' ''r1'' Approve example_first_approved =
       (fst example_auto_denied, fst (snd example_auto_denied), snd (snd example_auto_denied))"
    by (simp add: example_auto_denied_def)
  have loaded: "map available_seats (rides example_reloaded) = [1]"
    by code_simp
  have seats: "map available_seats (rides_tbl example_first_approved) = [1]"
    by code_simp
  from approve_without_seats_auto_denies [OF found_request found_ride _ call]
  have outcome: "fst (snd example_auto_denied) = Some NotEnoughSeats"
    and rides: "rides_tbl (fst example_auto_denied) = rides_tbl example_first_approved"
    and reqs: "requests_tbl (fst example_auto_denied) =
       map (set_status ''q2'' Denied) (requests_tbl example_first_approved)"
    by simp_all
  have "map status (requests_tbl (fst example_auto_denied)) = [Approved, Denied]"
    unfolding reqs by code_simp
  with loaded outcome rides seats show ?thesis by simp
qed

text \<open>
  C5. The ride has one available seat and the pending second request asks for two, so an
  approval is to deny the request and report the automatic denial. From the dashboard as
  loaded before the first approval, which shows three seats, the handler approves the
  request instead: both requests are approved, the notification is the approval, and the
  seat count written is three minus two. From the reloaded dashboard, which shows the one
  seat, the denial is sent; when the backend answers the update with an error, the
  handler drops the error that the two other branches throw and shows "Not enough seats.
  Request denied" while the request is still pending.
\<close>

theorem auto_denial_missed_or_lost:
  "map available_seats (rides_tbl example_first_approved) = [1] \<and>
   map (\<lambda>q. (id_req q, seats_requested q, status q)) (requests_tbl example_first_approved) =
     [(''q1'', 2, Approved), (''q2'', 2, Pending)] \<and>
   map available_seats (rides example_dashboard) = [3] \<and>
   snd example_stale_approval = (Some (RequestApproved ''Sam''), True) \<and>
   map status (requests_tbl (fst example_stale_approval)) = [Approved, Approved] \<and>
   map available_seats (rides_tbl (fst example_stale_approval)) = [1] \<and>
   map available_seats (rides example_reloaded) = [1] \<and>
   snd example_denial_lost = (Some NotEnoughSeats, True) \<and>
   map status (requests_tbl (fst example_denial_lost)) = [Approved, Pending] \<and>
   fst (snd (handleRequestDecision example_reloaded (Some ''Failed to fetch'') None ''q2'' ''r1'' Deny
     example_first_approved)) = Some (ErrorToast (BackendError ''Failed to fetch''))"
  by code_simp

section \<open>Deciding a request a second time\<close>

text \<open>The buttons are rendered for loaded requests whose loaded status is pending.\<close>

lemma offered_decisions_pending:
  assumes "offered_decisions user d = Inr ps" and "p \<in> set ps"
  shows "\<exists>req \<in> set (concat (map snd (requestsByRide d))). id_req req = fst p \<and> status req = Pending"
proof -
  from assms have "p \<in> set (concat (map (\<lambda>ride. map (\<lambda>req. (id_req req, id_ride ride))
      (pendingRequests d (id_ride ride))) (rides d)))"
    by (auto simp: offered_decisions_def split: if_splits)
  then obtain ride req where ride: "ride \<in> set (rides d)"
    and req: "req \<in> set (pendingRequests d (id_ride ride))"
    and p: "p = (id_req req, id_ride ride)"
    by auto
  from req have pending: "status req = Pending" and "req \<in> set (requests_of d (id_ride ride))"
    by (simp_all add: pendingRequests_def)
  then obtain qs where "map_of (requestsByRide d) (id_ride ride) = Some qs" and "req \<in> set qs"
    by (cases "map_of (requestsByRide d) (id_ride ride)") (auto simp: requests_of_def)
  then have "(id_ride ride, qs) \<in> set (requestsByRide d)" and "req \<in> set qs"
    by (auto dest: map_of_SomeD)
  then have "req \<in> set (concat (map snd (requestsByRide d)))"
    by force
  with pending p show ?thesis by auto
qed

text \<open>
  The handler does not look at the status of the request. A denial of a loaded request
  that the backend executes can be repeated: the second call returns what the first
  returned, the same database and the same notification, every request of that id is
  denied afterwards and the rides are unchanged.
\<close>

lemma decide_deny_repeats:
  assumes "find (\<lambda>r. id_req r = requestId) (concat (map snd (requestsByRide d))) = Some request"
      and "find (\<lambda>r. id_ride r = rideId) (rides d) = Some ride"
  shows "handleRequestDecision d None reply2 requestId rideId Deny
           (fst (handleRequestDecision d None reply2 requestId rideId Deny db)) =
         handleRequestDecision d None reply2 requestId rideId Deny db \<and>
         fst (snd (handleRequestDecision d None reply2 requestId rideId Deny db)) =
           (case profiles request of
              None \<Rightarrow> Some (ErrorToast TypeError)
            | Some full_name \<Rightarrow> Some (RequestDenied full_name)) \<and>
         rides_tbl (fst (handleRequestDecision d None reply2 requestId rideId Deny db)) = rides_tbl db \<and>
         (\<forall>q \<in> set (requests_tbl (fst (handleRequestDecision d None reply2 requestId rideId Deny db))).
            id_req q = requestId \<longrightarrow> status q = Denied)"
proof -
  note deny = handle_deny [OF assms, of None reply2]
  have twice: "map (set_status requestId Denied) (map (set_status requestId Denied) qs) =
      map (set_status requestId Denied) qs" for qs
    by (simp add: set_status_twice)
  have "handleRequestDecision d None reply2 requestId rideId Deny
           (fst (handleRequestDecision d None reply2 requestId rideId Deny db)) =
         handleRequestDecision d None reply2 requestId rideId Deny db"
    by (simp add: deny twice del: map_map)
  moreover have "\<forall>q \<in> set (requests_tbl (fst (handleRequestDecision d None reply2 requestId rideId Deny db))).
            id_req q = requestId \<longrightarrow> status q = Denied"
    using set_status_denied_all [of requestId Denied "requests_tbl db"] by (simp add: deny)
  ultimately show ?thesis
    by (simp add: deny)
qed

text \<open>
  C4. The handler has no check of the request's status and no error for a decided
  request. The dashboard of the example, loaded while both requests were pending, offers
  both decisions for both. With the first request denied in the database, a second denial
  from that dashboard is answered with the success notification, and an approval turns
  the status from denied to approved and lowers the seat count. With the first request
  approved in the database, a second approval is answered with the success notification,
  and a denial turns the status from approved to denied while the ride keeps its one
  available seat of three, no request being approved any more. None of the four calls
  ends in an error.
\<close>

theorem second_decision_not_rejected:
  "offered_decisions (Some ''d1'') example_dashboard = Inr [(''q1'', ''r1''), (''q2'', ''r1'')] \<and>
   map status (requests_tbl example_first_denied) = [Denied, Pending] \<and>
   snd example_second_deny = (Some (RequestDenied ''Pat''), True) \<and>
   map status (requests_tbl (fst example_second_deny)) = [Denied, Pending] \<and>
   snd example_approve_denied = (Some (RequestApproved ''Pat''), True) \<and>
   map status (requests_tbl (fst example_approve_denied)) = [Approved, Pending] \<and>
   map available_seats (rides_tbl example_first_denied) = [3] \<and>
   map available_seats (rides_tbl (fst example_approve_denied)) = [1] \<and>
   map status (requests_tbl example_first_approved) = [Approved, Pending] \<and>
   snd example_approve_approved = (Some (RequestApproved ''Pat''), True) \<and>
   map status (requests_tbl (fst example_approve_approved)) = [Approved, Pending] \<and>
   snd example_deny_approved = (Some (RequestDenied ''Pat''), True) \<and>
   map status (requests_tbl (fst example_deny_approved)) = [Denied, Pending] \<and>
   map total_seats (rides_tbl (fst example_deny_approved)) = [3] \<and>
   map available_seats (rides_tbl (fst example_deny_approved)) = [1] \<and>
   approved_seats (fst example_deny_approved) ''r1'' = 0 \<and>
   \<not> seats_consistent (fst example_deny_approved)"
  by code_simp

section \<open>Approving with a loaded state that is out of date\<close>

text \<open>
  The statements of a call executed alone are what the handler does to the database, and
  an interleaving in which only one call takes part is that call alone.
\<close>

lemma handleRequestDecision_statements:
  "fst (handleRequestDecision d None None requestId rideId decision db) =
     run_call (statements d requestId rideId decision) db"
  by (simp add: handleRequestDecision_def statements_def execute_def update_request_status_def
        split: option.splits decision.splits sum.splits)

lemma run_two_stopped: "run_two (map (Pair False) sts) True stopped2 db = db"
  by (induction sts) simp_all

lemma run_two_alone: "run_two (map (Pair False) sts) False stopped2 db = run_call sts db"
  by (induction sts arbitrary: db) (simp_all add: run_two_stopped split: sum.splits)

text \<open>
  C3. A ride with three seats and two pending requests of two seats each, both loaded by
  the dashboard; the driver approves both before the reload that follows the first
  approval has arrived. Each call compares the request with the three seats of the loaded
  ride and writes \<open>3 - 2\<close>. In each of the six interleavings of the two calls'
  statements both requests end approved and the ride ends with one seat, and both calls
  show the approval notification; no call is turned into a denial. So the
  property that exactly one call approves and the other is denied automatically fails.
\<close>

theorem concurrent_approvals_both_succeed:
  "length example_schedules = 6 \<and>
   example_outcomes = replicate 6 ([Approved, Approved], [1]) \<and>
   fst (snd (handleRequestDecision example_dashboard None None ''q1'' ''r1'' Approve example_requested)) =
     Some (RequestApproved ''Pat'') \<and>
   fst (snd (handleRequestDecision example_dashboard None None ''q2'' ''r1'' Approve example_first_approved)) =
     Some (RequestApproved ''Sam'')"
  by code_simp

text \<open>
  C1. Posting the trip and creating the two requests establish and keep the invariant,
  and so does the first approval. The second approval from the same loaded dashboard
  breaks it: the ride has three seats in total, four approved seats and one available
  seat.
\<close>

theorem seat_invariant_broken_by_second_approval:
  "seats_consistent example_posted \<and> seats_consistent example_requested \<and>
   seats_consistent example_first_approved \<and>
   \<not> seats_consistent example_both_approved \<and>
   map total_seats (rides_tbl example_both_approved) = [3] \<and>
   map available_seats (rides_tbl example_both_approved) = [1] \<and>
   approved_seats example_both_approved ''r1'' = 4"
  by code_simp

text \<open>
  C2. The two statements of an approval are sent one after the other, the second only
  after the first has succeeded, and nothing undoes the first. When the backend fails on
  the update of the ride, the request stays approved while the ride keeps all three
  seats; the call ends with the error notification.
\<close>

theorem approval_kept_when_seat_update_fails:
  "snd example_ride_update_fails = (Some (ErrorToast (BackendError ''Failed to fetch'')), False) \<and>
   map status (requests_tbl (fst example_ride_update_fails)) = [Approved, Pending] \<and>
   rides_tbl (fst example_ride_update_fails) = rides_tbl example_requested \<and>
   map available_seats (rides_tbl (fst example_ride_update_fails)) = [3] \<and>
   \<not> seats_consistent (fst example_ride_update_fails)"
  by code_simp

text \<open>
  C7. The check compares the request with the ride as the dashboard has loaded it. With
  one seat left in the database, the dashboard loaded before the first approval still
  shows three seats and approves the request for two seats; the reloaded dashboard, on
  the same database, denies it.
\<close>

theorem approval_check_reads_loaded_seats:
  "map available_seats (rides_tbl example_first_approved) = [1] \<and>
   map available_seats (rides example_dashboard) = [3] \<and>
   map available_seats (rides example_reloaded) = [1] \<and>
   fst (snd (handleRequestDecision example_dashboard None None ''q2'' ''r1'' Approve example_first_approved)) =
     Some (RequestApproved ''Sam'') \<and>
   fst (snd (handleRequestDecision example_reloaded None None ''q2'' ''r1'' Approve example_first_approved)) =
     Some NotEnoughSeats"
  by code_simp

section \<open>Duplicate requests\<close>

text \<open>
  A signed-in passenger who already has a request for the selected ride meets the
  constraint \<^verbatim>\<open>UNIQUE(ride_id, passenger_id)\<close>; a guest's row has a null
  \<open>passenger_id\<close> and is inserted.
\<close>

lemma booking_duplicate:
  assumes "list_ex (\<lambda>q. ride_id q = id_ride sel \<and> passenger_id q = Some uid) (requests_tbl db)"
      and "0 < n" and "int4 n"
      and "new_id \<notin> set (map id_req (requests_tbl db))"
  shows "handleBooking (Some uid) (Some sel) (Some n) guestEmail guestName None new_id db =
           (db, Some (ErrorToast (UniqueViolation ''requests_ride_id_passenger_id_key'')))"
proof -
  from assms(1)
  have "list_ex (\<lambda>q. ride_id q = id_ride sel \<and> passenger_id q \<noteq> None \<and>
                     passenger_id q = Some uid) (requests_tbl db)"
    by (auto simp: list_ex_iff)
  with assms(2-4) show ?thesis
    by (simp add: handleBooking_def insert_request_def)
qed

lemma booking_duplicate_fails:
  assumes "list_ex (\<lambda>q. ride_id q = id_ride sel \<and> passenger_id q = Some uid) (requests_tbl db)"
  shows "\<exists>e. handleBooking (Some uid) (Some sel) seats guestEmail guestName reply new_id db =
           (db, Some (ErrorToast e))"
proof -
  from assms
  have "list_ex (\<lambda>q. ride_id q = id_ride sel \<and> passenger_id q \<noteq> None \<and>
                     passenger_id q = Some uid) (requests_tbl db)"
    by (auto simp: list_ex_iff)
  then have "\<exists>e. insert_request reply new_id (id_ride sel) (Some uid) seats None None db = Inl e"
    by (simp add: insert_request_def split: option.splits)
  then show ?thesis
    by (auto simp: handleBooking_def)
qed

lemma booking_guest:
  assumes "guestEmail \<noteq> []" and "0 < n" and "int4 n"
      and "new_id \<notin> set (map id_req (requests_tbl db))"
      and "id_ride sel \<in> set (map id_ride (rides_tbl db))"
  shows "handleBooking None (Some sel) (Some n) guestEmail guestName None new_id db =
           (db\<lparr>requests_tbl := requests_tbl db @
               [\<lparr>id_req = new_id, ride_id = id_ride sel, passenger_id = None,
                 seats_requested = n, status = Pending, contact_email = Some guestEmail,
                 contact_name = (if guestName = [] then None else Some guestName)\<rparr>]\<rparr>,
            Some RequestSent)"
proof -
  have "\<not> list_ex (\<lambda>q. ride_id q = id_ride sel \<and> passenger_id q \<noteq> None \<and>
                     passenger_id q = None) (requests_tbl db)"
    by (auto simp: list_ex_iff)
  with assms show ?thesis
    by (simp add: handleBooking_def insert_request_def)
qed

lemma guest_bookings_count:
  assumes "guestEmail \<noteq> []" and "0 < n" and "int4 n"
      and "id_ride sel \<in> set (map id_ride (rides_tbl db))"
      and "distinct ids" and "set ids \<inter> set (map id_req (requests_tbl db)) = {}"
  shows "length (guest_requests (guest_bookings sel n guestEmail ids db) (id_ride sel)) =
           length (guest_requests db (id_ride sel)) + length ids"
  using assms(4-6)
proof (induction ids arbitrary: db)
  case Nil
  then show ?case by simp
next
  case (Cons new_id ids)
  let ?db = "fst (handleBooking None (Some sel) (Some n) guestEmail [] None new_id db)"
  from Cons.prems have fresh: "new_id \<notin> set (map id_req (requests_tbl db))"
    by auto
  note step = booking_guest [OF assms(1-3) fresh Cons.prems(1), of "[]"]
  have ride: "id_ride sel \<in> set (map id_ride (rides_tbl ?db))"
    using Cons.prems(1) by (simp add: step)
  have ids: "distinct ids" "set ids \<inter> set (map id_req (requests_tbl ?db)) = {}"
    using Cons.prems(2,3) by (auto simp: step)
  have "length (guest_requests ?db (id_ride sel)) = Suc (length (guest_requests db (id_ride sel)))"
    by (simp add: step guest_requests_def)
  with Cons.IH [OF ride ids] show ?case by simp
qed

text \<open>
  C8. A signed-in passenger who already has a request for the selected ride cannot
  create another: the call ends with an error and the database unchanged, whatever the
  seat count and the backend's reply, and with the unique-violation error for a valid
  seat count, a fresh id and a reply from the database. For a valid seat count and a
  fresh id, a guest with a contact email requesting an existing ride always gets the
  request inserted as pending, whatever requests exist already, and any number of
  further guest requests for that ride are inserted one after the other, each adding one
  to the ride's guest requests.
\<close>

theorem duplicate_rejected_guests_unlimited:
  assumes "0 < n" and "int4 n"
      and "new_id \<notin> set (map id_req (requests_tbl db))"
  shows "(list_ex (\<lambda>q. ride_id q = id_ride sel \<and> passenger_id q = Some uid) (requests_tbl db) \<longrightarrow>
            (\<exists>e. handleBooking (Some uid) (Some sel) seats guestEmail guestName reply new_id' db =
                   (db, Some (ErrorToast e))) \<and>
            handleBooking (Some uid) (Some sel) (Some n) guestEmail guestName None new_id db =
              (db, Some (ErrorToast (UniqueViolation ''requests_ride_id_passenger_id_key'')))) \<and>
         (guestEmail \<noteq> [] \<and> id_ride sel \<in> set (map id_ride (rides_tbl db)) \<longrightarrow>
            handleBooking None (Some sel) (Some n) guestEmail guestName None new_id db =
              (db\<lparr>requests_tbl := requests_tbl db @
                  [\<lparr>id_req = new_id, ride_id = id_ride sel, passenger_id = None,
                    seats_requested = n, status = Pending, contact_email = Some guestEmail,
                    contact_name = (if guestName = [] then None else Some guestName)\<rparr>]\<rparr>,
               Some RequestSent) \<and>
            (\<forall>ids. distinct ids \<and> set ids \<inter> set (map id_req (requests_tbl db)) = {} \<longrightarrow>
               length (guest_requests (guest_bookings sel n guestEmail ids db) (id_ride sel)) =
                 length (guest_requests db (id_ride sel)) + length ids))"
  using booking_duplicate [OF _ assms] booking_guest [OF _ assms]
    guest_bookings_count [OF _ assms(1,2)]
    booking_duplicate_fails [of sel uid db seats guestEmail guestName reply new_id']
  by blast

text \<open>
  Scenario C of the example: the first passenger requests the same ride again and is
  rejected; a guest's request is inserted, and three guest requests in a row give three
  guest requests for the ride.
\<close>

theorem duplicate_rejected_guests_unlimited_witness:
  "handleBooking (Some ''p1'') example_selected (Some 1) [] [] None ''q3'' example_requested =
     (example_requested, Some (ErrorToast (UniqueViolation ''requests_ride_id_passenger_id_key''))) \<and>
   map passenger_id
     (requests_tbl (fst (handleBooking None example_selected (Some 1) ''g@x.org'' [] None ''q3''
        example_requested))) = [Some ''p1'', Some ''p2'', None] \<and>
   length (guest_requests
     (guest_bookings (the example_selected) 1 ''g@x.org'' [''q3'', ''q4'', ''q5''] example_requested)
     ''r1'') = 3"
proof -
  have sel: "example_selected =
       Some \<lparr>id_ride = ''r1'', driver_id = Some ''d1'', origin = ''Ithaca'',
             destination = ''Boston'', departure_time = 5000, arrival_time = 9425000,
             total_seats = 3, available_seats = 3, cost_per_person = Some (277 / 50),
             contact_email_ride = None, contact_name_ride = None\<rparr>"
    by code_simp
  have n: "(0::int) < 1" "int4 1"
    by (simp_all add: int4_def)
  have fresh: "''q3'' \<notin> set (map id_req (requests_tbl example_requested))"
    by code_simp
  have dup: "list_ex (\<lambda>q. ride_id q = id_ride (the example_selected) \<and> passenger_id q = Some ''p1'')
      (requests_tbl example_requested)"
    by code_simp
  have ride: "id_ride (the example_selected) \<in> set (map id_ride (rides_tbl example_requested))"
    by code_simp
  have ids: "distinct [''q3'', ''q4'', ''q5'']"
    "set [''q3'', ''q4'', ''q5''] \<inter> set (map id_req (requests_tbl example_requested)) = {}"
    by code_simp+
  have none: "guest_requests example_requested ''r1'' = []"
    by code_simp
  have before: "map passenger_id (requests_tbl example_requested) = [Some ''p1'', Some ''p2'']"
    by code_simp
  have r1: "id_ride (the example_selected) = ''r1''"
    by (simp add: sel)
  have some: "Some (the example_selected) = example_selected"
    by (simp add: sel)
  have email: "''g@x.org'' \<noteq> []"
    by simp
  note booking = duplicate_rejected_guests_unlimited
    [OF n fresh, of "the example_selected" "''p1''" "Some 1" "''g@x.org''" "[]" None "''q3''"]
  from booking dup
  have a: "handleBooking (Some ''p1'') (Some (the example_selected)) (Some 1) ''g@x.org'' [] None ''q3''
      example_requested =
        (example_requested, Some (ErrorToast (UniqueViolation ''requests_ride_id_passenger_id_key'')))"
    by blast
  have a': "handleBooking (Some ''p1'') (Some (the example_selected)) (Some 1) [] [] None ''q3''
      example_requested =
        (example_requested, Some (ErrorToast (UniqueViolation ''requests_ride_id_passenger_id_key'')))"
    using a by (simp add: handleBooking_def)
  from booking email ride
  have b: "requests_tbl (fst (handleBooking None (Some (the example_selected)) (Some 1) ''g@x.org'' []
      None ''q3'' example_requested)) =
        requests_tbl example_requested @
          [\<lparr>id_req = ''q3'', ride_id = id_ride (the example_selected), passenger_id = None,
            seats_requested = 1, status = Pending, contact_email = Some ''g@x.org'',
            contact_name = None\<rparr>]"
    by simp
  from booking email ride ids
  have c: "length (guest_requests
      (guest_bookings (the example_selected) 1 ''g@x.org'' [''q3'', ''q4'', ''q5''] example_requested)
      (id_ride (the example_selected))) =
        length (guest_requests example_requested (id_ride (the example_selected))) +
        length [''q3'', ''q4'', ''q5'']"
    by blast
  from a' b c show ?thesis
    by (simp add: some r1 none before)
qed

section \<open>Listing the open rides\<close>

lemma open_rides_mset:
  "mset (open_rides now db) =
     filter_mset (\<lambda>r. now < departure_time r \<and> 0 < available_seats r) (mset (rides_tbl db))"
  by (simp add: open_rides_def)

lemma open_rides_sorted: "sorted (map departure_time (open_rides now db))"
  by (simp add: open_rides_def)

lemma filteredRides_sorted:
  "sorted (map departure_time rs) \<Longrightarrow>
     sorted (map departure_time (filteredRides originFilter destinationFilter rs))"
  by (simp add: filteredRides_def sorted_filter)

text \<open>
  C9. When the query succeeds, the rides stored by \<open>fetchRides\<close> are, with their
  multiplicity, exactly the rides of the table that depart strictly after the time of
  the query and have more than zero available seats, in ascending order of departure.
  The rides shown under the two filters are exactly the stored rides that pass both
  filters, still in ascending order of departure; a filter other than the entry
  "All Locations", which stands for no filter, lets through only rides whose origin,
  respectively destination, equals it.
\<close>

theorem open_rides_listed_in_departure_order:
  assumes "fetchRides None now db s = (s', outcome)"
  shows "outcome = None \<and>
         mset (rides_found s') =
           filter_mset (\<lambda>r. now < departure_time r \<and> 0 < available_seats r) (mset (rides_tbl db)) \<and>
         sorted (map departure_time (rides_found s')) \<and>
         sorted (map departure_time (filteredRides originFilter destinationFilter (rides_found s'))) \<and>
         mset (filteredRides originFilter destinationFilter (rides_found s')) =
           filter_mset
             (\<lambda>r. (originFilter = ''All Locations'' \<or> origin r = originFilter) \<and>
                  (destinationFilter = ''All Locations'' \<or> destination r = destinationFilter))
             (mset (rides_found s')) \<and>
         (originFilter \<noteq> ''All Locations'' \<longrightarrow>
            (\<forall>r \<in> set (filteredRides originFilter destinationFilter (rides_found s')).
               origin r = originFilter)) \<and>
         (destinationFilter \<noteq> ''All Locations'' \<longrightarrow>
            (\<forall>r \<in> set (filteredRides originFilter destinationFilter (rides_found s')).
               destination r = destinationFilter))"
proof -
  from assms have found: "rides_found s' = open_rides now db" and outcome: "outcome = None"
    by (auto simp: fetchRides_def Let_def)
  have "sorted (map departure_time (rides_found s'))"
    by (simp add: found open_rides_sorted)
  then have "sorted (map departure_time (filteredRides originFilter destinationFilter (rides_found s')))"
    by (rule filteredRides_sorted)
  moreover have "mset (rides_found s') =
      filter_mset (\<lambda>r. now < departure_time r \<and> 0 < available_seats r) (mset (rides_tbl db))"
    by (simp add: found open_rides_mset)
  moreover have "mset (filteredRides originFilter destinationFilter (rides_found s')) =
           filter_mset
             (\<lambda>r. (originFilter = ''All Locations'' \<or> origin r = originFilter) \<and>
                  (destinationFilter = ''All Locations'' \<or> destination r = destinationFilter))
             (mset (rides_found s'))"
    by (simp add: filteredRides_def)
  moreover have "\<forall>r \<in> set (filteredRides originFilter destinationFilter (rides_found s')).
      origin r = originFilter" if "originFilter \<noteq> ''All Locations''"
    using that by (simp add: filteredRides_def)
  moreover have "\<forall>r \<in> set (filteredRides originFilter destinationFilter (rides_found s')).
      destination r = destinationFilter" if "destinationFilter \<noteq> ''All Locations''"
    using that by (simp add: filteredRides_def)
  ultimately show ?thesis
    using outcome \<open>sorted (map departure_time (rides_found s'))\<close> by blast
qed

text \<open>
  Of the three rides of the example, the one departed at 500 is not listed at time 1000;
  the other two are listed by departure, and the filters select among them.
\<close>

theorem open_rides_listed_in_departure_order_witness:
  "map (\<lambda>r. (id_ride r, departure_time r, available_seats r)) (rides_tbl example_three_rides) =
     [(''r1'', 5000, 3), (''r2'', 3000, 4), (''r3'', 500, 2)] \<and>
   map id_ride (rides_found (fst example_listing)) = [''r2'', ''r1''] \<and>
   origins (fst example_listing) = [''All Locations'', ''Ithaca''] \<and>
   destinations (fst example_listing) = [''All Locations'', ''Albany'', ''Boston''] \<and>
   sorted (map departure_time (filteredRides ''Ithaca'' ''Boston'' (rides_found (fst example_listing)))) \<and>
   map id_ride (filteredRides ''Ithaca'' ''Boston'' (rides_found (fst example_listing))) = [''r1''] \<and>
   map id_ride (filteredRides ''Ithaca'' ''All Locations'' (rides_found (fst example_listing))) =
     [''r2'', ''r1'']"
proof -
  have call: "fetchRides None 1000 example_three_rides
      \<lparr>rides_found = [], origins = [], destinations = []\<rparr> = (fst example_listing, snd example_listing)"
    by (simp add: example_listing_def)
  have table: "map (\<lambda>r. (id_ride r, departure_time r, available_seats r)) (rides_tbl example_three_rides) =
     [(''r1'', 5000, 3), (''r2'', 3000, 4), (''r3'', 500, 2)]"
    by code_simp
  have found: "map id_ride (rides_found (fst example_listing)) = [''r2'', ''r1'']"
    by code_simp
  have lists: "origins (fst example_listing) = [''All Locations'', ''Ithaca'']"
    "destinations (fst example_listing) = [''All Locations'', ''Albany'', ''Boston'']"
    by code_simp+
  have shown: "map id_ride (filteredRides ''Ithaca'' ''Boston'' (rides_found (fst example_listing))) = [''r1'']"
    "map id_ride (filteredRides ''Ithaca'' ''All Locations'' (rides_found (fst example_listing))) =
     [''r2'', ''r1'']"
    by code_simp+
  from open_rides_listed_in_departure_order [OF call, of "''Ithaca''" "''Boston''"]
  have "sorted (map departure_time (filteredRides ''Ithaca'' ''Boston'' (rides_found (fst example_listing))))"
    by blast
  with table found lists shown show ?thesis by blast
qed

section \<open>Posting a trip\<close>

lemma decimal_10_2_nonneg:
  assumes "0 \<le> c" and "decimal_10_2 c = Inr c'"
  shows "0 \<le> c'"
proof -
  from assms(1) have "0 \<le> round (c * 100)"
    by (simp add: round_def)
  with assms show ?thesis
    by (auto simp: decimal_10_2_def Let_def split: if_splits)
qed

lemma ride_values_row:
  assumes "ride_values new_id driver orig dest datetime seatsNum email name = Inr row"
  shows "\<exists>minutes. mockDurationMinutes (mockDistance orig dest) = Some minutes \<and>
           arrival_time row = departure_time row + minutes * 60000 \<and>
           \<bar>departure_time row\<bar> \<le> 8640000000000000 \<and> \<bar>arrival_time row\<bar> \<le> 8640000000000000"
    and "total_seats row = seatsNum \<and> available_seats row = seatsNum \<and>
         cost_per_person row = costPerPerson (mockDistance orig dest) seatsNum \<and>
         driver_id row = driver \<and> id_ride row = new_id"
  using assms
  by (auto simp: ride_values_def new_Date_def toISOString_def Let_def
        split: option.splits if_splits)

lemma ride_values_estimate:
  assumes "0 \<le> seatsNum"
      and "ride_values new_id driver orig dest datetime seatsNum email name = Inr row"
  shows "\<exists>minutes fuel c.
           mockDurationMinutes (mockDistance orig dest) = Some minutes \<and> 0 \<le> minutes \<and>
           arrival_time row = departure_time row + minutes * 60000 \<and>
           totalFuelCost (mockDistance orig dest) = Some fuel \<and> 0 \<le> fuel \<and>
           costPerPerson (mockDistance orig dest) seatsNum = Some c \<and> 0 \<le> c \<and>
           cost_per_person row = Some c"
proof -
  from ride_values_row(1) [OF assms(2)] obtain minutes
    where m: "mockDurationMinutes (mockDistance orig dest) = Some minutes"
      and arr: "arrival_time row = departure_time row + minutes * 60000"
      and range: "\<bar>departure_time row\<bar> \<le> 8640000000000000" "\<bar>arrival_time row\<bar> \<le> 8640000000000000"
    by blast
  from range arr have "minutes < 2 ^ 39"
    by simp
  with mockDurationMinutes_bounds [OF mockDistance_nonneg m]
  have m0: "0 \<le> minutes" and miles: "mockDistance orig dest < 2 ^ 40"
    by simp_all
  from costPerPerson_finite [OF mockDistance_nonneg miles assms(1)] obtain fuel c
    where "totalFuelCost (mockDistance orig dest) = Some fuel" "0 \<le> fuel"
      "costPerPerson (mockDistance orig dest) seatsNum = Some c" "0 \<le> c"
    by blast
  with m m0 arr ride_values_row(2) [OF assms(2)] show ?thesis
    by simp
qed

lemma insert_ride_row:
  assumes "insert_ride reply row db = Inr db'"
  shows "\<exists>cost. rides_tbl db' = rides_tbl db @ [row\<lparr>cost_per_person := cost\<rparr>] \<and>
           requests_tbl db' = requests_tbl db \<and>
           (case cost_per_person row of
              None \<Rightarrow> cost = None
            | Some c \<Rightarrow> \<exists>c'. decimal_10_2 (Number_toString c) = Inr c' \<and> cost = Some c')"
  using assms
  by (auto simp: insert_ride_def Let_def split: option.splits if_splits sum.splits)

lemma insert_ride_no_check_violation:
  assumes "1 \<le> total_seats row" and "available_seats row = total_seats row"
      and "cost_per_person row = Some c" and "0 \<le> c"
  shows "insert_ride reply row db \<noteq> Inl (CheckViolation name)"
proof -
  have "ride_checks (row\<lparr>cost_per_person := Some c'\<rparr>) = None"
    if "decimal_10_2 (Number_toString c) = Inr c'" for c'
    using assms decimal_10_2_nonneg [OF Number_toString_nonneg [OF assms(4)] that]
    by (simp add: ride_checks_def)
  then show ?thesis
    using assms(3)
    by (auto simp: insert_ride_def decimal_10_2_def Let_def split: option.splits if_splits sum.splits)
qed

lemma ride_values_error:
  "ride_values new_id driver orig dest datetime seatsNum email name = Inl e \<Longrightarrow> e = RangeError"
  by (auto simp: ride_values_def new_Date_def toISOString_def Let_def
        split: option.splits if_splits)

lemma post_ok:
  assumes "1 \<le> seatsNum"
      and "ride_values new_id driver orig dest datetime seatsNum email name = Inr row"
  shows "insert_ride reply row db \<noteq> Inl (CheckViolation cname)"
    and "insert_ride reply row db = Inr db' \<Longrightarrow>
           \<exists>row'. rides_tbl db' = rides_tbl db @ [row'] \<and> requests_tbl db' = requests_tbl db \<and>
                  posted_row_ok orig dest seatsNum row'"
proof -
  from assms(1) have "0 \<le> seatsNum"
    by simp
  from ride_values_estimate [OF this assms(2)] obtain minutes fuel c
    where m: "mockDurationMinutes (mockDistance orig dest) = Some minutes" "0 \<le> minutes"
        "arrival_time row = departure_time row + minutes * 60000"
      and f: "totalFuelCost (mockDistance orig dest) = Some fuel" "0 \<le> fuel"
      and c: "costPerPerson (mockDistance orig dest) seatsNum = Some c" "0 \<le> c"
        "cost_per_person row = Some c"
    by blast
  note row = ride_values_row(2) [OF assms(2)]
  have seats: "1 \<le> total_seats row" "available_seats row = total_seats row"
    using row assms(1) by simp_all
  show "insert_ride reply row db \<noteq> Inl (CheckViolation cname)"
    by (rule insert_ride_no_check_violation [OF seats c(3) c(2)])
  assume "insert_ride reply row db = Inr db'"
  from insert_ride_row [OF this] c(3)
  obtain c' where tbl: "rides_tbl db' = rides_tbl db @ [row\<lparr>cost_per_person := Some c'\<rparr>]"
    and reqs: "requests_tbl db' = requests_tbl db"
    and c': "decimal_10_2 (Number_toString c) = Inr c'"
    by auto
  from decimal_10_2_nonneg [OF Number_toString_nonneg [OF c(2)] c'] have "0 \<le> c'" .
  with m f c c' row assms(1)
  have "posted_row_ok orig dest seatsNum (row\<lparr>cost_per_person := Some c'\<rparr>)"
    by (simp add: posted_row_ok_def)
  with tbl reqs
  show "\<exists>row'. rides_tbl db' = rides_tbl db @ [row'] \<and> requests_tbl db' = requests_tbl db \<and>
                  posted_row_ok orig dest seatsNum row'"
    by blast
qed

lemma post_result:
  assumes "1 \<le> seatsNum"
      and "(case ride_values new_id driver orig dest datetime seatsNum email name of
              Inl err \<Rightarrow> (db, Some (ErrorToast err))
            | Inr row \<Rightarrow>
               (case insert_ride reply row db of
                  Inl err \<Rightarrow> (db, Some (ErrorToast err))
                | Inr db2 \<Rightarrow> (db2, Some TripPosted))) = (db', outcome)"
  shows "outcome \<noteq> Some (ErrorToast (CheckViolation cname)) \<and>
         (outcome = Some TripPosted \<longrightarrow>
            (\<exists>row. rides_tbl db' = rides_tbl db @ [row] \<and> requests_tbl db' = requests_tbl db \<and>
                   posted_row_ok orig dest seatsNum row))"
proof (cases "ride_values new_id driver orig dest datetime seatsNum email name")
  case (Inl e)
  with assms(2) ride_values_error [OF Inl] show ?thesis
    by auto
next
  case (Inr row)
  note ok = post_ok [OF assms(1) Inr]
  show ?thesis
  proof (cases "insert_ride reply row db")
    case (Inl e)
    with assms(2) Inr ok(1) [of reply db cname] show ?thesis
      by auto
  next
    case insert: (Inr db2)
    with assms(2) Inr have "db' = db2" and "outcome = Some TripPosted"
      by simp_all
    with ok(2) [of reply db db2] insert show ?thesis
      by simp
  qed
qed

text \<open>
  C10. For a seat count of at least one, in the guest and in the signed-in branch and for
  every origin, destination, departure and reply of the backend: the submission never
  ends with a violation of a CHECK constraint, and when the trip is posted exactly one
  row is added, whose arrival is its departure plus a non-negative number of minutes,
  hence not before the departure, whose seats are the seat count, total and available,
  and whose cost is not negative: the fuel cost and the cost per person are finite
  doubles that are not negative, the divisor is positive, and the stored cost is the
  cost per person as the database reads and rounds it.
\<close>

theorem posted_ride_passes_checks:
  assumes "1 \<le> seatsNum"
      and "handleSubmit user orig dest datetime seatsNum guestEmail guestName reply new_id db =
             (db', outcome)"
  shows "outcome \<noteq> Some (ErrorToast (CheckViolation cname)) \<and>
         (outcome = Some TripPosted \<longrightarrow>
            (\<exists>row. rides_tbl db' = rides_tbl db @ [row] \<and> requests_tbl db' = requests_tbl db \<and>
                   posted_row_ok orig dest seatsNum row))"
proof (cases user)
  case None
  show ?thesis
  proof (cases "guestEmail = []")
    case True
    with None assms(2) have "outcome = Some EmailRequired"
      by (auto simp: handleSubmit_def)
    then show ?thesis by simp
  next
    case False
    with None assms(2) show ?thesis
      by (intro post_result [OF assms(1)]) (simp add: handleSubmit_def)
  qed
next
  case (Some uid)
  with assms(2) show ?thesis
    by (intro post_result [OF assms(1)]) (simp add: handleSubmit_def)
qed

text \<open>The trip of the example is posted, with the row the estimate gives.\<close>

theorem posted_ride_passes_checks_witness:
  "handleSubmit (Some ''d1'') ''Ithaca'' ''Boston'' (Some 5000) 3 [] [] None ''r1'' example_start =
     (example_posted, Some TripPosted) \<and>
   rides_tbl example_posted =
     [\<lparr>id_ride = ''r1'', driver_id = Some ''d1'', origin = ''Ithaca'',
       destination = ''Boston'', departure_time = 5000, arrival_time = 9425000,
       total_seats = 3, available_seats = 3, cost_per_person = Some (277 / 50),
       contact_email_ride = None, contact_name_ride = None\<rparr>] \<and>
   (\<exists>row. rides_tbl example_posted = rides_tbl example_start @ [row] \<and>
      posted_row_ok ''Ithaca'' ''Boston'' 3 row)"
proof -
  have call: "handleSubmit (Some ''d1'') ''Ithaca'' ''Boston'' (Some 5000) 3 [] [] None ''r1''
      example_start = (example_posted, Some TripPosted)"
    by (simp add: example_posted_def example_posted_call)
  have table: "rides_tbl example_posted =
     [\<lparr>id_ride = ''r1'', driver_id = Some ''d1'', origin = ''Ithaca'',
       destination = ''Boston'', departure_time = 5000, arrival_time = 9425000,
       total_seats = 3, available_seats = 3, cost_per_person = Some (277 / 50),
       contact_email_ride = None, contact_name_ride = None\<rparr>]"
    by code_simp
  have seats: "(1::int) \<le> 3"
    by simp
  from posted_ride_passes_checks [OF seats call]
  have "\<exists>row. rides_tbl example_posted = rides_tbl example_start @ [row] \<and>
      posted_row_ok ''Ithaca'' ''Boston'' 3 row"
    by blast
  with call table show ?thesis by blast
qed

section \<open>Where the seat invariant is kept\<close>

text \<open>
  The invariant of the seats: every ride's available seats are its total seats less the
  seats of its approved requests. Posting a trip keeps it, as the new ride has all its
  seats available and, its id being new, no request; requesting seats keeps it, as the
  new request is pending; a denial keeps it unless the request is approved in the
  database. An approval keeps it when the loaded state is current, that is when the
  loaded ride shows the seats the database has and the request is pending in the database
  with the seats the loaded request shows, and when both statements are executed.
\<close>

lemma approved_seats_set_status:
  "sum_list (map seats_requested
     (filter (\<lambda>q. ride_id q = r \<and> status q = Approved) (map (set_status i Approved) qs))) =
   sum_list (map seats_requested (filter (\<lambda>q. ride_id q = r \<and> status q = Approved) qs)) +
   sum_list (map seats_requested
     (filter (\<lambda>q. ride_id q = r \<and> status q \<noteq> Approved) (filter (\<lambda>q. id_req q = i) qs)))"
  by (induction qs) (simp_all add: set_status_def)

lemma approved_seats_after_approval:
  assumes "filter (\<lambda>q. id_req q = requestId) (requests_tbl db) = [q]"
      and "status q = Pending" and "ride_id q = rideId"
  shows "approved_seats (db\<lparr>requests_tbl := map (set_status requestId Approved) (requests_tbl db)\<rparr>) r =
           approved_seats db r + (if r = rideId then seats_requested q else 0)"
  using assms by (simp add: approved_seats_def approved_seats_set_status)

lemma first_violation_None:
  "\<forall>r \<in> set rs. ride_checks r = None \<Longrightarrow> first_violation rs = None"
  by (induction rs) simp_all

lemma approved_seats_rides_update [simp]:
  "approved_seats (db\<lparr>rides_tbl := rs\<rparr>) r = approved_seats db r"
  by (simp add: approved_seats_def)

lemma seats_consistent_cong:
  assumes "rides_tbl db' = rides_tbl db" and "\<And>r. approved_seats db' r = approved_seats db r"
  shows "seats_consistent db' = seats_consistent db"
  using assms by (simp add: seats_consistent_def)

lemma insert_request_tables:
  assumes "insert_request reply new_id rideId passengerId seats email name db = Inr db'"
  shows "rides_tbl db' = rides_tbl db \<and>
         (\<exists>q. requests_tbl db' = requests_tbl db @ [q] \<and> status q = Pending)"
  using assms
  by (auto simp: insert_request_def split: option.splits if_splits)

lemma booking_keeps_seats_consistent:
  assumes "seats_consistent db"
  shows "seats_consistent
           (fst (handleBooking user selectedRide seatsToBook guestEmail guestName reply new_id db))"
proof -
  have kept: "seats_consistent db'"
    if "insert_request reply new_id rideId passengerId seatsToBook email name db = Inr db'"
    for rideId passengerId email name db'
  proof -
    from insert_request_tables [OF that] obtain q
      where rides: "rides_tbl db' = rides_tbl db"
        and reqs: "requests_tbl db' = requests_tbl db @ [q]" and q: "status q = Pending"
      by blast
    have "approved_seats db' r = approved_seats db r" for r
      using q by (simp add: approved_seats_def reqs)
    from seats_consistent_cong [OF rides this] assms show ?thesis
      by simp
  qed
  show ?thesis
    using assms kept
    by (auto simp: handleBooking_def split: option.splits sum.splits)
qed

lemma denial_keeps_seats_consistent:
  assumes "seats_consistent db"
      and "\<forall>q \<in> set (requests_tbl db). id_req q = requestId \<longrightarrow> status q \<noteq> Approved"
  shows "seats_consistent (fst (handleRequestDecision d reply1 reply2 requestId rideId Deny db))"
proof -
  have "filter (\<lambda>q. ride_id q = r \<and> status q = Approved)
          (map (set_status requestId Denied) qs) =
        filter (\<lambda>q. ride_id q = r \<and> status q = Approved) qs"
    if "\<forall>q \<in> set qs. id_req q = requestId \<longrightarrow> status q \<noteq> Approved" for r qs
    using that by (induction qs) (simp_all add: set_status_def)
  with assms(2)
  have "approved_seats (db\<lparr>requests_tbl := map (set_status requestId Denied) (requests_tbl db)\<rparr>) r =
      approved_seats db r" for r
    by (simp add: approved_seats_def)
  then have "seats_consistent (db\<lparr>requests_tbl := map (set_status requestId Denied) (requests_tbl db)\<rparr>)"
    using assms(1) seats_consistent_cong [of "db\<lparr>requests_tbl := map (set_status requestId Denied) (requests_tbl db)\<rparr>" db]
    by simp
  with assms(1) show ?thesis
    by (auto simp: handleRequestDecision_def update_request_status_def
          split: option.splits sum.splits)
qed

lemma ride_values_seats:
  "ride_values new_id driver orig dest datetime seatsNum email name = Inr row \<Longrightarrow>
     available_seats row = total_seats row \<and> id_ride row = new_id"
  by (auto simp: ride_values_def new_Date_def toISOString_def Let_def
        split: option.splits if_splits)

lemma insert_ride_tables:
  assumes "insert_ride reply row db = Inr db'"
  shows "requests_tbl db' = requests_tbl db \<and>
         (\<exists>cost. rides_tbl db' = rides_tbl db @ [row\<lparr>cost_per_person := cost\<rparr>])"
  using assms
  by (auto simp: insert_ride_def Let_def split: option.splits if_splits sum.splits)

lemma posting_keeps_seats_consistent:
  assumes "seats_consistent db"
      and "new_id \<notin> set (map ride_id (requests_tbl db))"
  shows "seats_consistent
           (fst (handleSubmit user orig dest datetime seatsNum guestEmail guestName reply new_id db))"
proof -
  have none: "approved_seats db new_id = 0"
  proof -
    from assms(2)
    have "filter (\<lambda>q. ride_id q = new_id \<and> status q = Approved) (requests_tbl db) = []"
      by (auto simp: filter_empty_conv)
    then show ?thesis
      by (simp add: approved_seats_def)
  qed
  have kept: "seats_consistent db'"
    if "ride_values new_id driver orig dest datetime seatsNum email name = Inr row"
      and "insert_ride reply row db = Inr db'"
    for driver email name row db'
  proof -
    from insert_ride_tables [OF that(2)] obtain cost
      where reqs: "requests_tbl db' = requests_tbl db"
        and rides: "rides_tbl db' = rides_tbl db @ [row\<lparr>cost_per_person := cost\<rparr>]"
      by blast
    have same: "approved_seats db' r = approved_seats db r" for r
      by (simp add: approved_seats_def reqs)
    from ride_values_seats [OF that(1)] none assms(1) show ?thesis
      by (simp add: seats_consistent_def rides same)
  qed
  show ?thesis
    using assms(1) kept
    by (auto simp: handleSubmit_def split: option.splits sum.splits)
qed

text \<open>
  The approval from a current state. The rows are as the schema admits them: the rides
  pass their CHECK constraints, the request asks for a positive number of seats, and its
  id is a key.
\<close>

lemma fresh_approval_keeps_seats_consistent:
  assumes inv: "seats_consistent db"
      and rows: "\<forall>r \<in> set (rides_tbl db). ride_checks r = None"
      and request: "find (\<lambda>r. id_req r = requestId) (concat (map snd (requestsByRide d))) = Some request"
      and ride: "find (\<lambda>r. id_ride r = rideId) (rides d) = Some ride"
      and row: "filter (\<lambda>q. id_req q = requestId) (requests_tbl db) = [q]"
        "status q = Pending" "ride_id q = rideId"
        "seats_requested q = seats_requested request" "0 < seats_requested q"
      and loaded: "\<forall>r \<in> set (rides_tbl db). id_ride r = rideId \<longrightarrow> available_seats r = available_seats ride"
      and enough: "seats_requested request \<le> available_seats ride"
  shows "seats_consistent (fst (handleRequestDecision d None None requestId rideId Approve db))"
proof -
  let ?n = "available_seats ride - seats_requested request"
  let ?db1 = "db\<lparr>requests_tbl := map (set_status requestId Approved) (requests_tbl db)\<rparr>"
  let ?db2 = "?db1\<lparr>rides_tbl := map (set_available rideId ?n) (rides_tbl db)\<rparr>"
  have ok: "ride_checks (set_available rideId ?n r) = None" if "r \<in> set (rides_tbl db)" for r
  proof (cases "id_ride r = rideId")
    case True
    with loaded that have "available_seats r = available_seats ride"
      by blast
    with rows that row(4,5) enough True show ?thesis
      by (auto simp: ride_checks_def set_available_def split: if_splits)
  next
    case False
    with rows that show ?thesis
      by (simp add: set_available_def)
  qed
  then have "first_violation
      (map (set_available rideId ?n) (filter (\<lambda>r. id_ride r = rideId) (rides_tbl db))) = None"
    by (intro first_violation_None) auto
  with request ride enough
  have result: "fst (handleRequestDecision d None None requestId rideId Approve db) = ?db2"
    by (simp add: handleRequestDecision_def update_request_status_def update_ride_available_def
          split: option.splits)
  have approved: "approved_seats ?db2 x =
      approved_seats db x + (if x = rideId then seats_requested q else 0)" for x
  proof -
    have "approved_seats ?db2 x = approved_seats ?db1 x"
      by (simp add: approved_seats_def)
    also have "\<dots> = approved_seats db x + (if x = rideId then seats_requested q else 0)"
      by (rule approved_seats_after_approval [OF row(1-3)])
    finally show ?thesis .
  qed
  have tbl: "rides_tbl ?db2 = map (set_available rideId ?n) (rides_tbl db)"
    by simp
  have "available_seats r' = total_seats r' - approved_seats ?db2 (id_ride r')"
    if "r' \<in> set (map (set_available rideId ?n) (rides_tbl db))" for r'
  proof -
    from that obtain r where r: "r \<in> set (rides_tbl db)" and r': "r' = set_available rideId ?n r"
      by auto
    from inv r have before: "available_seats r = total_seats r - approved_seats db (id_ride r)"
      by (simp add: seats_consistent_def list_all_iff)
    have fields: "total_seats r' = total_seats r" "id_ride r' = id_ride r"
      "available_seats r' = (if id_ride r = rideId then ?n else available_seats r)"
      by (simp_all add: r' set_available_def)
    show ?thesis
    proof (cases "id_ride r = rideId")
      case True
      with loaded r have "available_seats r = available_seats ride"
        by blast
      moreover have "approved_seats ?db2 (id_ride r') = approved_seats db rideId + seats_requested request"
        by (simp only: fields True approved row(4) refl if_True)
      moreover have "available_seats r' = available_seats ride - seats_requested request"
        by (simp only: fields True refl if_True)
      moreover from before True
      have "available_seats r = total_seats r - approved_seats db rideId"
        by simp
      ultimately show ?thesis
        using fields(1) by linarith
    next
      case False
      then have "approved_seats ?db2 (id_ride r') = approved_seats db (id_ride r)"
        by (simp only: fields approved if_False add_0_right)
      moreover from False have "available_seats r' = available_seats r"
        by (simp only: fields if_False)
      ultimately show ?thesis
        using before fields(1) by linarith
    qed
  qed
  then have "seats_consistent ?db2"
    unfolding seats_consistent_def tbl list_all_iff by blast
  with result show ?thesis by simp
qed

end
